theory Spec2Isabelle
  imports Complex_Main "HOL-Library.Sublist"
begin

section \<open>Python values used by the pipeline\<close>

text \<open>
  The pipeline works on Python \<open>str\<close>, \<open>int\<close>, \<open>float\<close>, \<open>list\<close> and \<open>dict\<close> values.
  Strings are modelled as \<^typ>\<open>string\<close> restricted to the ASCII range (one \<^typ>\<open>char\<close> per
  code point), Python integers as \<^typ>\<open>int\<close> or, for lengths and counts, \<^typ>\<open>nat\<close>.
  A Python \<open>float\<close> is modelled by the exact rational it approximates, and \<open>round(x, 2)\<close>
  by rounding that rational to two decimals (ties to even).  The keyword densities of the
  SEO Analyzer and of the keyword report are the exception: there the rounding of each
  double operation is modelled too (\<open>fl\<close> below), because it decides the second decimal
  of the stored value.
  Operations that raise in Python return a value of \<open>py_error + 'a\<close>.
\<close>

datatype py_error = ZeroDivisionError | IndexError

definition truediv :: "rat \<Rightarrow> rat \<Rightarrow> py_error + rat" where
  "truediv a b = (if b = 0 then Inl ZeroDivisionError else Inr (a / b))"

definition round2 :: "rat \<Rightarrow> rat" where
  "round2 x =
     (let y = x * 100; f = \<lfloor>y\<rfloor>; d = y - of_int f
      in of_int (if d < 1 / 2 then f else if 1 / 2 < d then f + 1
                 else if even f then f else f + 1) / 100)"

subsection \<open>Double precision\<close>

text \<open>
  \<open>fl x\<close> is the double nearest to the rational \<open>x\<close> (53-bit significand, ties to even),
  so a double operation on doubles \<open>a\<close> and \<open>b\<close> is \<open>fl (a / b)\<close> or \<open>fl (a * b)\<close>.
  \<open>bits n\<close> is the length of the binary numeral of \<open>n\<close>, and \<open>exponent x\<close> the \<open>e\<close> with
  \<open>2\<^sup>e \<le> x < 2\<^sup>e\<^sup>+\<^sup>1\<close> for positive \<open>x\<close>.  The exponent range of doubles is not modelled:
  quotients of counts lie far inside it.
\<close>

function bits :: "int \<Rightarrow> int" where
  "bits n = (if n \<le> 0 then 0 else 1 + bits (n div 2))"
  by pat_completeness auto
termination
  by (relation "measure nat") auto

declare bits.simps [simp del]

definition pow2 :: "int \<Rightarrow> rat" where
  "pow2 k = (if 0 \<le> k then 2 ^ nat k else 1 / 2 ^ nat (- k))"

definition round_half_even :: "rat \<Rightarrow> int" where
  "round_half_even y =
     (let f = \<lfloor>y\<rfloor>; d = y - of_int f
      in if d < 1 / 2 then f else if 1 / 2 < d then f + 1 else if even f then f else f + 1)"

definition exponent :: "rat \<Rightarrow> int" where
  "exponent x =
     (if 1 \<le> x then bits \<lfloor>x\<rfloor> - 1
      else (let b = bits \<lfloor>1 / x\<rfloor> in if pow2 (1 - b) \<le> x then 1 - b else - b))"

definition fl :: "rat \<Rightarrow> rat" where
  "fl x =
     (if x = 0 then 0
      else (let a = \<bar>x\<bar>;
                ulp = pow2 (exponent a - 52);
                m = of_int (round_half_even (a / ulp)) * ulp
            in if x < 0 then - m else m))"

text \<open>\<open>a / b\<close> and \<open>a * b\<close> on doubles.\<close>

definition float_truediv :: "rat \<Rightarrow> rat \<Rightarrow> py_error + rat" where
  "float_truediv a b = (if b = 0 then Inl ZeroDivisionError else Inr (fl (a / b)))"

definition float_mul :: "rat \<Rightarrow> rat \<Rightarrow> rat" where
  "float_mul a b = fl (a * b)"

subsection \<open>Characters\<close>

definition is_space :: "char \<Rightarrow> bool" where
  "is_space c = (c \<in> {CHR '' '', CHR 0x09, CHR 0x0A, CHR 0x0B, CHR 0x0C, CHR 0x0D,
                       CHR 0x1C, CHR 0x1D, CHR 0x1E, CHR 0x1F})"

definition is_upper_char :: "char \<Rightarrow> bool" where
  "is_upper_char c = (65 \<le> (of_char c :: nat) \<and> (of_char c :: nat) \<le> 90)"

definition is_lower_char :: "char \<Rightarrow> bool" where
  "is_lower_char c = (97 \<le> (of_char c :: nat) \<and> (of_char c :: nat) \<le> 122)"

definition lower_char :: "char \<Rightarrow> char" where
  "lower_char c = (if is_upper_char c then char_of ((of_char c :: nat) + 32) else c)"

definition upper_char :: "char \<Rightarrow> char" where
  "upper_char c = (if is_lower_char c then char_of ((of_char c :: nat) - 32) else c)"

subsection \<open>String methods\<close>

text \<open>\<open>s.lower()\<close>, \<open>s.isupper()\<close>, \<open>s.strip()\<close>, \<open>s.lstrip('#')\<close>.\<close>

definition lower :: "string \<Rightarrow> string" where
  "lower s = map lower_char s"

definition isupper :: "string \<Rightarrow> bool" where
  "isupper s = (list_ex is_upper_char s \<and> \<not> list_ex is_lower_char s)"

definition strip :: "string \<Rightarrow> string" where
  "strip s = rev (dropWhile is_space (rev (dropWhile is_space s)))"

definition lstrip_hash :: "string \<Rightarrow> string" where
  "lstrip_hash s = dropWhile (\<lambda>c. c = CHR ''#'') s"

text \<open>\<open>sub in s\<close> and \<open>s.startswith(p)\<close>.\<close>

fun contains :: "string \<Rightarrow> string \<Rightarrow> bool" where
  "contains sub [] = (sub = [])"
| "contains sub (c # cs) = (prefix sub (c # cs) \<or> contains sub cs)"

definition startswith :: "string \<Rightarrow> string \<Rightarrow> bool" where
  "startswith s p = prefix p s"

text \<open>\<open>s.split()\<close>: the maximal runs of non-whitespace characters.\<close>

fun split_ws_aux :: "string \<Rightarrow> string \<Rightarrow> string list" where
  "split_ws_aux acc [] = (if acc = [] then [] else [rev acc])"
| "split_ws_aux acc (c # cs) =
     (if is_space c
      then (if acc = [] then split_ws_aux [] cs else rev acc # split_ws_aux [] cs)
      else split_ws_aux (c # acc) cs)"

definition split_ws :: "string \<Rightarrow> string list" where
  "split_ws s = split_ws_aux [] s"

text \<open>
  \<open>s.split(sep)\<close> for a non-empty separator (every call site passes a non-empty literal;
  Python raises \<open>ValueError\<close> on an empty one).  The accumulator holds the current piece,
  reversed.
\<close>

function split_aux :: "string \<Rightarrow> string \<Rightarrow> string \<Rightarrow> string list" where
  "split_aux sep acc [] = [rev acc]"
| "split_aux sep acc (c # cs) =
     (if sep \<noteq> [] \<and> prefix sep (c # cs)
      then rev acc # split_aux sep [] (drop (length sep) (c # cs))
      else split_aux sep (c # acc) cs)"
  by pat_completeness auto
termination
  by (relation "measure (\<lambda>(sep, acc, s). length s)") auto

definition split :: "string \<Rightarrow> string \<Rightarrow> string list" where
  "split sep s = split_aux sep [] s"

text \<open>\<open>sep.join(xs)\<close>.\<close>

fun join :: "string \<Rightarrow> string list \<Rightarrow> string" where
  "join sep [] = []"
| "join sep [x] = x"
| "join sep (x # y # ys) = x @ sep @ join sep (y # ys)"

text \<open>\<open>s.count(sub)\<close>: the number of non-overlapping occurrences, scanning from the left.\<close>

function count_aux :: "string \<Rightarrow> string \<Rightarrow> nat" where
  "count_aux sub [] = 0"
| "count_aux sub (c # cs) =
     (if sub \<noteq> [] \<and> prefix sub (c # cs)
      then Suc (count_aux sub (drop (length sub) (c # cs)))
      else count_aux sub cs)"
  by pat_completeness auto
termination
  by (relation "measure (\<lambda>(sub, s). length s)") auto

definition str_count :: "string \<Rightarrow> string \<Rightarrow> nat" where
  "str_count s sub = (if sub = [] then length s + 1 else count_aux sub s)"

text \<open>\<open>s.replace(old, new)\<close> and \<open>s.replace(old, new, 1)\<close>, for a non-empty \<open>old\<close>.\<close>

function replace :: "string \<Rightarrow> string \<Rightarrow> string \<Rightarrow> string" where
  "replace old new [] = []"
| "replace old new (c # cs) =
     (if old \<noteq> [] \<and> prefix old (c # cs)
      then new @ replace old new (drop (length old) (c # cs))
      else c # replace old new cs)"
  by pat_completeness auto
termination
  by (relation "measure (\<lambda>(old, new, s). length s)") auto

fun replace_first :: "string \<Rightarrow> string \<Rightarrow> string \<Rightarrow> string" where
  "replace_first old new [] = []"
| "replace_first old new (c # cs) =
     (if prefix old (c # cs) then new @ drop (length old) (c # cs)
      else c # replace_first old new cs)"

text \<open>\<open>s.find(sub, start)\<close> in a loop: every offset at which \<open>sub\<close> occurs.\<close>

definition find_all :: "string \<Rightarrow> string \<Rightarrow> nat list" where
  "find_all sub s = filter (\<lambda>i. prefix sub (drop i s)) [0 ..< length s + 1]"

text \<open>Decimal rendering of integers, as an f-string does.\<close>

fun show_nat :: "nat \<Rightarrow> string" where
  "show_nat n =
     (if n < 10 then [char_of (48 + n)] else show_nat (n div 10) @ [char_of (48 + n mod 10)])"

definition show_int :: "int \<Rightarrow> string" where
  "show_int i = (if i < 0 then CHR ''-'' # show_nat (nat (- i)) else show_nat (nat i))"

text \<open>Slices \<open>s[:n]\<close> and \<open>s[-n:]\<close> for a positive literal \<open>n\<close>.\<close>

definition slice_to :: "nat \<Rightarrow> 'a list \<Rightarrow> 'a list" where
  "slice_to n s = take n s"

definition slice_last :: "nat \<Rightarrow> 'a list \<Rightarrow> 'a list" where
  "slice_last n s = drop (length s - n) s"

section \<open>Content Validator (\<open>utils/tools.py\<close>, \<open>ContentValidatorTool\<close>)\<close>

text \<open>
  \<open>re.split(r'[.!?]+', content)\<close>: the pieces of \<open>content\<close> between the maximal runs of
  \<open>.\<close>, \<open>!\<close> and \<open>?\<close>; a run at either end leaves an empty piece there.
\<close>

definition is_punct :: "char \<Rightarrow> bool" where
  "is_punct c = (c \<in> {CHR ''.'', CHR ''!'', CHR ''?''})"

function re_split_aux :: "string \<Rightarrow> string \<Rightarrow> string list" where
  "re_split_aux acc [] = [rev acc]"
| "re_split_aux acc (c # cs) =
     (if is_punct c then rev acc # re_split_aux [] (dropWhile is_punct cs)
      else re_split_aux (c # acc) cs)"
  by pat_completeness auto
termination
  by (relation "measure (\<lambda>(acc, s). length s)") (auto simp: length_dropWhile_le less_Suc_eq_le)

definition re_split_punct :: "string \<Rightarrow> string list" where
  "re_split_punct s = re_split_aux [] s"

text \<open>The number of maximal runs of sentence punctuation, counted directly.\<close>

fun punct_runs :: "string \<Rightarrow> nat" where
  "punct_runs [] = 0"
| "punct_runs [c] = (if is_punct c then 1 else 0)"
| "punct_runs (c # d # cs) =
     (if is_punct c \<and> \<not> is_punct d then Suc (punct_runs (d # cs)) else punct_runs (d # cs))"

record validation_results =
  vr_word_count :: nat
  vr_character_count :: nat
  vr_sentence_count :: int
  vr_paragraph_count :: nat
  vr_readability_score :: rat
  vr_issues :: "string list"
  vr_quality_score :: int

text \<open>\<open>[p for p in content.split('\n\n') if p.strip()]\<close>\<close>

definition nonempty_paragraphs :: "string \<Rightarrow> string list" where
  "nonempty_paragraphs content =
     filter (\<lambda>p. strip p \<noteq> []) (split ''\<newline>\<newline>'' content)"

definition calculate_readability :: "string \<Rightarrow> py_error + rat" where
  "calculate_readability content =
     (let sentences = int (length (re_split_punct content)) - 1;
          words = length (split_ws content)
      in if sentences = 0 then Inr 0
         else (case truediv (of_nat words) (of_int sentences) of
                 Inl e \<Rightarrow> Inl e
               | Inr avg_sentence_length \<Rightarrow>
                   Inr (round2 (max 0 (100 - avg_sentence_length * 2)))))"

text \<open>\<open>word_freq[word] = word_freq.get(word, 0) + 1\<close> on a dictionary kept in insertion order.\<close>

fun bump :: "(string \<times> nat) list \<Rightarrow> string \<Rightarrow> (string \<times> nat) list" where
  "bump [] w = [(w, 1)]"
| "bump ((k, v) # m) w = (if k = w then (k, v + 1) # m else (k, v) # bump m w)"

definition long_paragraph_issues :: "string list \<Rightarrow> string list" where
  "long_paragraph_issues paragraphs =
     concat (map (\<lambda>(i, para).
        if 200 < length (split_ws para)
        then [''Paragraph '' @ show_nat (i + 1) @ '' is very long ('' @
              show_nat (length (split_ws para)) @ '' words)'']
        else [])
       (zip [0 ..< length paragraphs] paragraphs))"

definition repetitive_issues :: "string list \<Rightarrow> string list" where
  "repetitive_issues words =
     (let word_freq = fold (\<lambda>word m. if 5 < length word then bump m word else m) words []
      in concat (map (\<lambda>(word, freq).
           if 10 < freq
           then [''Word '' @ [CHR 0x27] @ word @ [CHR 0x27] @ '' appears '' @ show_nat freq @
                 '' times (potentially repetitive)'']
           else []) word_freq))"

text \<open>\<open>re.search(r'[.!?]$', content.strip())\<close>: the stripped text cannot end in a newline, so
  \<open>$\<close> matches at its very end only.\<close>

definition ends_with_punct :: "string \<Rightarrow> bool" where
  "ends_with_punct content = (let s = strip content in s \<noteq> [] \<and> is_punct (last s))"

definition identify_issues :: "string \<Rightarrow> string list" where
  "identify_issues content =
     long_paragraph_issues (nonempty_paragraphs content) @
     repetitive_issues (split_ws (lower content)) @
     (if \<not> ends_with_punct content
      then [''Content doesn'' @ [CHR 0x27] @ ''t end with proper punctuation''] else [])"

definition calculate_quality_score :: "validation_results \<Rightarrow> int" where
  "calculate_quality_score metrics =
     (let score = 100;
          score = score - int (length (vr_issues metrics)) * 5;
          score = (if vr_readability_score metrics < 30 then score - 20
                   else if vr_readability_score metrics < 50 then score - 10 else score);
          word_count = vr_word_count metrics;
          score = (if word_count < 100 then score - 30
                   else if word_count < 300 then score - 15
                   else if 3000 < word_count then score - 10 else score)
      in max 0 (min 100 score))"

text \<open>
  \<open>ContentValidatorTool.run\<close>.  The body sits in \<open>try\<close>/\<open>except Exception\<close>: an exception
  raised while the metrics are computed is turned into the dictionary \<open>{'error': ...}\<close>,
  which is the \<open>Inl\<close> result here.
\<close>

definition validator_run :: "string \<Rightarrow> py_error + validation_results" where
  "validator_run content =
     (case calculate_readability content of
        Inl e \<Rightarrow> Inl e
      | Inr readability \<Rightarrow>
          (let validation_results =
                 \<lparr> vr_word_count = length (split_ws content),
                   vr_character_count = length content,
                   vr_sentence_count = int (length (re_split_punct content)) - 1,
                   vr_paragraph_count = length (nonempty_paragraphs content),
                   vr_readability_score = readability,
                   vr_issues = identify_issues content,
                   vr_quality_score = 0 \<rparr>
           in Inr (validation_results
                     \<lparr> vr_quality_score := calculate_quality_score validation_results \<rparr>)))"

text \<open>\<open>analysis.get('quality_score', 0)\<close> on the result of \<open>run\<close>.\<close>

definition get_quality_score :: "py_error + validation_results \<Rightarrow> int" where
  "get_quality_score r = (case r of Inl e \<Rightarrow> 0 | Inr v \<Rightarrow> vr_quality_score v)"

section \<open>Requirements\<close>

text \<open>
  The requirements object is a dictionary read with \<open>requirements.get(key, default)\<close>
  everywhere; an absent key is \<^const>\<open>None\<close>.
\<close>

record requirements =
  topic :: "string option"
  target_audience :: "string option"
  word_count :: "int option"
  tone :: "string option"
  content_type :: "string option"
  seo_keywords :: "string list option"

definition get_or :: "'a option \<Rightarrow> 'a \<Rightarrow> 'a" where
  "get_or v d = (case v of None \<Rightarrow> d | Some x \<Rightarrow> x)"

section \<open>Editing stage (\<open>agents/editor.py\<close>, \<open>EditorAgent\<close>)\<close>

definition improve_heading :: "string \<Rightarrow> string" where
  "improve_heading line =
     (let heading_text = strip line;
          level = length heading_text - length (lstrip_hash heading_text);
          text = strip (lstrip_hash heading_text)
      in replicate level (CHR ''#'') @ '' '' @ text)"

definition fix_paragraph_spacing :: "string \<Rightarrow> string" where
  "fix_paragraph_spacing content =
     join ''\<newline>\<newline>''
       (concat (map (\<lambda>para.
          let cleaned_para = strip para
          in if cleaned_para \<noteq> [] then [join '' '' (split ''\<newline>'' cleaned_para)] else [])
        (split ''\<newline>\<newline>'' content)))"

definition improve_structure :: "string \<Rightarrow> requirements \<Rightarrow> string" where
  "improve_structure content reqs =
     fix_paragraph_spacing
       (join ''\<newline>''
          (map (\<lambda>line. if startswith line ''#'' then improve_heading line else line)
               (split ''\<newline>'' content)))"

definition clarity_improvements :: "(string \<times> string) list" where
  "clarity_improvements =
     [(''in order to'', ''to''),
      (''due to the fact that'', ''because''),
      (''at this point in time'', ''now''),
      (''for the purpose of'', ''to''),
      (''in the event that'', ''if''),
      (''take into consideration'', ''consider''),
      (''make a decision'', ''decide''),
      (''come to a conclusion'', ''conclude''),
      (''it is important to note that'', []),
      (''it should be mentioned that'', []),
      (''it is worth noting that'', [])]"

definition improve_clarity :: "string \<Rightarrow> string" where
  "improve_clarity content =
     fold (\<lambda>(wordy, concise) improved_content. replace wordy concise improved_content)
          clarity_improvements content"

definition transition_starters :: "string list" where
  "transition_starters =
     [''However,'', ''Furthermore,'', ''Additionally,'', ''Moreover,'',
      ''In contrast,'', ''Similarly,'', ''Therefore,'', ''Consequently,'']"

text \<open>One paragraph of \<open>_improve_flow\<close> at an index \<open>i > 0\<close>; \<open>prev\<close> is \<open>paragraphs[i-1]\<close>.\<close>

definition flow_paragraph :: "string \<Rightarrow> string \<Rightarrow> string" where
  "flow_paragraph prev para =
     (if 20 < length (split_ws para)
      then (if \<not> list_ex (\<lambda>starter. startswith (strip para) starter) transition_starters
            then (if contains ''benefit'' (lower para) \<or> contains ''advantage'' (lower para)
                  then (if contains ''challenge'' (lower prev)
                        then ''However, '' @ para
                        else ''Additionally, '' @ para)
                  else if contains ''challenge'' (lower para) \<or> contains ''difficult'' (lower para)
                  then ''However, '' @ para
                  else para)
            else para)
      else para)"

fun flow_rest :: "string \<Rightarrow> string list \<Rightarrow> string list" where
  "flow_rest prev [] = []"
| "flow_rest prev (para # paragraphs) = flow_paragraph prev para # flow_rest para paragraphs"

definition improve_flow :: "string \<Rightarrow> string" where
  "improve_flow content =
     join ''\<newline>\<newline>''
       (case split ''\<newline>\<newline>'' content of
          [] \<Rightarrow> []
        | para # paragraphs \<Rightarrow> para # flow_rest para paragraphs)"

text \<open>What one sentence of \<open>_improve_readability\<close> appends to \<open>improved_sentences\<close>.\<close>

definition readable_sentence :: "string \<Rightarrow> string list" where
  "readable_sentence raw =
     (let sentence = strip raw;
          keep = (if sentence \<noteq> [] then [sentence] else [])
      in if 30 < length (split_ws sentence)
         then (if contains '' and '' sentence
               then (case split '' and '' sentence of
                       [p0, p1] \<Rightarrow> [strip p0, strip p1]
                     | _ \<Rightarrow> keep)
               else if contains '' which '' sentence
               then (case split '' which '' sentence of
                       [p0, p1] \<Rightarrow> [strip p0, ''This '' @ strip p1]
                     | _ \<Rightarrow> keep)
               else keep)
         else keep)"

definition improve_readability :: "string \<Rightarrow> string" where
  "improve_readability content =
     join ''. '' (concat (map readable_sentence (split ''.'' content)))"

definition grammar_fixes :: "(string \<times> string) list" where
  "grammar_fixes =
     [('' ,'', '',''), ('' .'', ''.''), ('',,'', '',''), (''..'', ''.''), (''  '', '' '')]"

definition capitalize_first :: "string \<Rightarrow> string" where
  "capitalize_first sentence =
     (case sentence of
        [] \<Rightarrow> []
      | c # cs \<Rightarrow> if is_lower_char c then upper_char c # cs else c # cs)"

definition fix_common_issues :: "string \<Rightarrow> py_error + validation_results \<Rightarrow> string" where
  "fix_common_issues content quality_analysis =
     (let improved_content =
            fold (\<lambda>(incorrect, correct) c. replace incorrect correct c) grammar_fixes content
      in join ''. '' (map capitalize_first (split ''. '' improved_content)))"

definition improve_content ::
  "string \<Rightarrow> requirements \<Rightarrow> py_error + validation_results \<Rightarrow> string" where
  "improve_content content reqs quality_analysis =
     (let improved_content = improve_structure content reqs;
          improved_content = improve_clarity improved_content;
          improved_content = improve_flow improved_content;
          improved_content = improve_readability improved_content;
          improved_content = fix_common_issues improved_content quality_analysis
      in improved_content)"

definition transitions :: "string list" where
  "transitions = [''However'', ''Furthermore'', ''Additionally'', ''Moreover'', ''Therefore'']"

definition track_improvements :: "string \<Rightarrow> string \<Rightarrow> string list" where
  "track_improvements original improved =
     (let original_words = length (split_ws original);
          improved_words = length (split_ws improved);
          improvements =
            (if improved_words \<noteq> original_words
             then (if improved_words < original_words
                   then [''Reduced word count by '' @ show_nat (original_words - improved_words) @
                         '' words for better conciseness'']
                   else [''Expanded content by '' @ show_nat (improved_words - original_words) @
                         '' words for better clarity''])
             else []);
          original_headings = str_count original ''#'';
          improved_headings = str_count improved ''#'';
          improvements = improvements @
            (if original_headings < improved_headings
             then [''Added headings to improve content structure''] else []);
          original_paras = length (nonempty_paragraphs original);
          improved_paras = length (nonempty_paragraphs improved);
          improvements = improvements @
            (if improved_paras \<noteq> original_paras
             then [''Reorganized content into better paragraph structure''] else []);
          original_transitions = sum_list (map (str_count original) transitions);
          improved_transitions = sum_list (map (str_count improved) transitions);
          improvements = improvements @
            (if original_transitions < improved_transitions
             then [''Added transition words to improve flow''] else [])
      in if improvements = []
         then [''Made minor improvements to clarity and readability'']
         else improvements)"

definition calculate_final_quality_score :: "string \<Rightarrow> int" where
  "calculate_final_quality_score content = get_quality_score (validator_run content)"

text \<open>
  \<open>edit_content\<close>.  The fields \<open>editing_notes\<close> and \<open>recommendations\<close> of the result are
  lists of messages that print floats; they are left out of the record.
\<close>

record editing_output =
  original_content :: string
  edited_content :: string
  quality_analysis :: "py_error + validation_results"
  improvements_made :: "string list"
  final_quality_score :: int

definition edit_content :: "string \<Rightarrow> requirements \<Rightarrow> editing_output" where
  "edit_content content reqs =
     (let quality_analysis = validator_run content;
          improved_content = improve_content content reqs quality_analysis
      in \<lparr> original_content = content,
           edited_content = improved_content,
           quality_analysis = quality_analysis,
           improvements_made = track_improvements content improved_content,
           final_quality_score = calculate_final_quality_score improved_content \<rparr>)"

section \<open>SEO Analyzer (\<open>utils/tools.py\<close>, \<open>SEOAnalyzerTool\<close>)\<close>

text \<open>
  Of the analysis returned by \<open>SEOAnalyzerTool.run\<close> the part \<open>keyword_analysis\<close> is
  modelled.  \<open>run\<close> catches every exception and returns \<open>{'error': ...}\<close> instead, which is
  the \<open>Inl\<close> result of \<open>seo_analyzer_run\<close>.
\<close>

record keyword_analysis =
  ka_target_keywords :: "string list"
  keyword_density :: "string \<rightharpoonup> rat"
  keyword_positions :: "string \<rightharpoonup> nat list"
  missing_keywords :: "string list"

text \<open>
  The body of the loop over \<open>keywords\<close> in \<open>_analyze_keywords\<close>.  The density is
  \<open>round((count / total_words) * 100, 2)\<close> on doubles; the stored double is the one nearest
  to the two-decimal value kept here.
\<close>

definition analyze_keyword :: "string \<Rightarrow> string \<Rightarrow> keyword_analysis \<Rightarrow> py_error + keyword_analysis" where
  "analyze_keyword content keyword ka =
     (let content_lower = lower content;
          keyword_lower = lower keyword;
          cnt = str_count content_lower keyword_lower;
          total_words = length (split_ws content)
      in case (if 0 < total_words
               then (case float_truediv (of_nat cnt) (of_nat total_words) of
                       Inl e \<Rightarrow> Inl e
                     | Inr q \<Rightarrow>
                         Inr (ka\<lparr>keyword_density :=
                                 (keyword_density ka)(keyword \<mapsto> round2 (float_mul q 100))\<rparr>))
               else Inr ka) of
           Inl e \<Rightarrow> Inl e
         | Inr ka \<Rightarrow>
             Inr (ka\<lparr>keyword_positions :=
                         (keyword_positions ka)(keyword \<mapsto> find_all keyword_lower content_lower),
                     missing_keywords :=
                         missing_keywords ka @ (if cnt = 0 then [keyword] else [])\<rparr>))"

fun analyze_keywords_loop ::
  "string \<Rightarrow> string list \<Rightarrow> keyword_analysis \<Rightarrow> py_error + keyword_analysis" where
  "analyze_keywords_loop content [] ka = Inr ka"
| "analyze_keywords_loop content (keyword # keywords) ka =
     (case analyze_keyword content keyword ka of
        Inl e \<Rightarrow> Inl e
      | Inr ka' \<Rightarrow> analyze_keywords_loop content keywords ka')"

definition analyze_keywords :: "string \<Rightarrow> string list \<Rightarrow> py_error + keyword_analysis" where
  "analyze_keywords content keywords =
     analyze_keywords_loop content keywords
       \<lparr> ka_target_keywords = keywords, keyword_density = Map.empty,
         keyword_positions = Map.empty, missing_keywords = [] \<rparr>"

definition seo_analyzer_run :: "string \<Rightarrow> string list \<Rightarrow> py_error + keyword_analysis" where
  "seo_analyzer_run content target_keywords = analyze_keywords content target_keywords"

text \<open>\<open>analysis['keyword_analysis']['keyword_density'].get(K)\<close> on the result of \<open>run\<close>.\<close>

definition density_of :: "py_error + keyword_analysis \<Rightarrow> string \<Rightarrow> rat option" where
  "density_of analysis K = (case analysis of Inl e \<Rightarrow> None | Inr ka \<Rightarrow> keyword_density ka K)"

section \<open>SEO stage (\<open>agents/seo_optimizer.py\<close>, \<open>SEOAgent\<close>)\<close>

subsection \<open>Title and heading keyword injection\<close>

text \<open>The body of \<open>_optimize_title_seo\<close> for the first line that starts with \<open>"# "\<close>.\<close>

definition optimize_title_line :: "string \<Rightarrow> string list \<Rightarrow> py_error + string" where
  "optimize_title_line line keywords =
     (let title = strip (drop 2 line)
      in case keywords of
           [] \<Rightarrow> Inr line
         | primary_keyword # _ \<Rightarrow>
             if \<not> contains (lower primary_keyword) (lower title)
             then (if contains '':'' title
                   then (case split '':'' title of
                           [] \<Rightarrow> Inl IndexError
                         | p0 # ps \<Rightarrow>
                             if \<not> contains (lower primary_keyword) (lower p0)
                             then (case ps of
                                     [] \<Rightarrow> Inl IndexError
                                   | p1 # _ \<Rightarrow> Inr (''# '' @ primary_keyword @ '': '' @ strip p1))
                             else Inr (''# '' @ title))
                   else Inr (''# '' @ primary_keyword @ '': '' @ title))
             else Inr line)"

fun optimize_title_lines :: "string list \<Rightarrow> string list \<Rightarrow> py_error + string list" where
  "optimize_title_lines [] keywords = Inr []"
| "optimize_title_lines (line # lines) keywords =
     (if startswith line ''# ''
      then (case optimize_title_line line keywords of
              Inl e \<Rightarrow> Inl e
            | Inr line' \<Rightarrow> Inr (line' # lines))
      else (case optimize_title_lines lines keywords of
              Inl e \<Rightarrow> Inl e
            | Inr lines' \<Rightarrow> Inr (line # lines')))"

definition optimize_title_seo :: "string \<Rightarrow> string list \<Rightarrow> py_error + string" where
  "optimize_title_seo content keywords =
     (case optimize_title_lines (split ''\<newline>'' content) keywords of
        Inl e \<Rightarrow> Inl e
      | Inr lines \<Rightarrow> Inr (join ''\<newline>'' lines))"

definition rewrite_heading :: "string \<Rightarrow> string \<Rightarrow> string" where
  "rewrite_heading keyword heading_text =
     (if contains ''benefits'' (lower heading_text) \<or> contains ''advantages'' (lower heading_text)
      then keyword @ '' Benefits and Advantages''
      else if contains ''challenges'' (lower heading_text)
      then keyword @ '' Challenges and Solutions''
      else if contains ''best practices'' (lower heading_text)
      then ''Best Practices for '' @ keyword
      else if contains ''future'' (lower heading_text)
      then ''Future of '' @ keyword
      else heading_text)"

text \<open>The loop of \<open>_optimize_headings_seo\<close>, with \<open>keyword_index\<close> as its state.\<close>

fun optimize_heading_lines :: "string list \<Rightarrow> string list \<Rightarrow> nat \<Rightarrow> string list" where
  "optimize_heading_lines [] keywords keyword_index = []"
| "optimize_heading_lines (line # lines) keywords keyword_index =
     (if startswith line ''##'' \<and> \<not> startswith line ''###''
      then (let heading = strip line;
                heading_text = strip (lstrip_hash heading)
            in if keyword_index < length keywords
               then (let keyword = keywords ! keyword_index
                     in if \<not> contains (lower keyword) (lower heading_text)
                        then (''## '' @ rewrite_heading keyword heading_text) #
                             optimize_heading_lines lines keywords (keyword_index + 1)
                        else line # optimize_heading_lines lines keywords keyword_index)
               else line # optimize_heading_lines lines keywords keyword_index)
      else line # optimize_heading_lines lines keywords keyword_index)"

definition optimize_headings_seo :: "string \<Rightarrow> string list \<Rightarrow> string" where
  "optimize_headings_seo content keywords =
     (if keywords = [] then content
      else join ''\<newline>'' (optimize_heading_lines (split ''\<newline>'' content) keywords 0))"

subsection \<open>Natural keyword integration\<close>

definition generic_terms :: "string list" where
  "generic_terms =
     [''this technology'', ''this approach'', ''this method'', ''this solution'', ''it'']"

text \<open>
  The loop over the sentences of one paragraph in \<open>_add_keyword_naturally\<close>; the second
  component of the result is \<open>additions_made\<close>.
\<close>

fun add_keyword_sentences ::
  "string \<Rightarrow> nat \<Rightarrow> string list \<Rightarrow> nat \<Rightarrow> string list \<times> nat" where
  "add_keyword_sentences keyword cnt [] additions_made = ([], additions_made)"
| "add_keyword_sentences keyword cnt (sentence # sentences) additions_made =
     (if 10 < length (split_ws sentence) \<and> additions_made < cnt
      then (let (sentence', made') =
                  (case find (\<lambda>term. contains term (lower sentence)) generic_terms of
                     Some term \<Rightarrow> (replace_first term keyword sentence, additions_made + 1)
                   | None \<Rightarrow> (sentence, additions_made))
            in if cnt \<le> made' then (sentence' # sentences, made')
               else (let (rest, made'') = add_keyword_sentences keyword cnt sentences made'
                     in (sentence' # rest, made'')))
      else (let (rest, made') = add_keyword_sentences keyword cnt sentences additions_made
            in (sentence # rest, made')))"

fun add_keyword_paragraphs :: "string \<Rightarrow> nat \<Rightarrow> string list \<Rightarrow> nat \<Rightarrow> string list" where
  "add_keyword_paragraphs keyword cnt [] additions_made = []"
| "add_keyword_paragraphs keyword cnt (para # paragraphs) additions_made =
     (if cnt \<le> additions_made
      then para # add_keyword_paragraphs keyword cnt paragraphs additions_made
      else if startswith para ''#'' \<or> length (split_ws para) < 20
      then para # add_keyword_paragraphs keyword cnt paragraphs additions_made
      else if \<not> contains (lower keyword) (lower para)
      then (let (sentences, made') =
                  add_keyword_sentences keyword cnt (split ''.'' para) additions_made
            in join ''.'' sentences # add_keyword_paragraphs keyword cnt paragraphs made')
      else para # add_keyword_paragraphs keyword cnt paragraphs additions_made)"

definition add_keyword_naturally :: "string \<Rightarrow> string \<Rightarrow> nat \<Rightarrow> string" where
  "add_keyword_naturally content keyword cnt =
     join ''\<newline>\<newline>'' (add_keyword_paragraphs keyword cnt (split ''\<newline>\<newline>'' content) 0)"

text \<open>\<open>int(word_count * 0.015)\<close> is taken on the exact product.\<close>

definition integrate_keyword :: "string \<Rightarrow> string \<Rightarrow> string" where
  "integrate_keyword keyword optimized_content =
     (let word_count = length (split_ws optimized_content);
          current_count = str_count (lower optimized_content) (lower keyword);
          target_count = max 1 (word_count * 15 div 1000)
      in if current_count < target_count
         then add_keyword_naturally optimized_content keyword (target_count - current_count)
         else optimized_content)"

definition integrate_keywords_naturally :: "string \<Rightarrow> string list \<Rightarrow> string" where
  "integrate_keywords_naturally content keywords =
     (if keywords = [] then content else fold integrate_keyword keywords content)"

subsection \<open>Paragraph length capping\<close>

fun chunk_sentences :: "string list \<Rightarrow> string list \<Rightarrow> string list" where
  "chunk_sentences current_para [] =
     (if current_para \<noteq> [] then [strip (join ''.'' current_para)] else [])"
| "chunk_sentences current_para (sentence # sentences) =
     (let current_para = current_para @ [sentence]
      in if 100 < length (split_ws (join '' '' current_para))
         then (strip (join ''.'' current_para) @ ''.'') # chunk_sentences [] sentences
         else chunk_sentences current_para sentences)"

definition optimize_structure_line :: "string \<Rightarrow> string list" where
  "optimize_structure_line line =
     (if startswith line ''#'' then [line]
      else if strip line \<noteq> [] \<and> \<not> startswith line ''#''
      then (if 200 < length (split_ws line)
            then chunk_sentences [] (split ''.'' line)
            else [line])
      else [line])"

definition optimize_content_structure :: "string \<Rightarrow> string" where
  "optimize_content_structure content =
     join ''\<newline>'' (concat (map optimize_structure_line (split ''\<newline>'' content)))"

subsection \<open>Appended sections\<close>

definition generate_faq_section :: "string list \<Rightarrow> requirements \<Rightarrow> string" where
  "generate_faq_section keywords reqs =
     (let primary_keyword = (case keywords of [] \<Rightarrow> get_or (topic reqs) [] | k # _ \<Rightarrow> k);
          faq_section = ''## Frequently Asked Questions about '' @ primary_keyword @
                        ''\<newline>\<newline>'';
          faqs =
            [''**What is '' @ primary_keyword @ ''?**\<newline>'' @ primary_keyword @
               '' is a comprehensive approach that offers numerous benefits for organizations and individuals looking to improve their outcomes.'',
             ''**How does '' @ primary_keyword @ '' work?**\<newline>The implementation of '' @
               primary_keyword @
               '' involves several key steps and considerations that must be carefully planned and executed.'',
             ''**What are the benefits of '' @ primary_keyword @
               ''?**\<newline>The main benefits include improved efficiency, better results, cost-effectiveness, and competitive advantages in the marketplace.'',
             ''**Is '' @ primary_keyword @ '' suitable for beginners?**\<newline>Yes, '' @
               primary_keyword @
               '' can be adapted for users at all levels, from beginners to advanced practitioners.'']
      in strip (fold (\<lambda>faq section. section @ faq @ ''\<newline>\<newline>'') (take 3 faqs) faq_section))"

definition generate_related_topics_section :: "string list \<Rightarrow> string" where
  "generate_related_topics_section keywords =
     (let section = ''## Related Topics\<newline>\<newline>'';
          section = section @
            ''Explore these related subjects to deepen your understanding:\<newline>\<newline>'';
          section = fold (\<lambda>keyword section.
                       section @ ''- '' @ keyword @ '' Best Practices\<newline>'' @
                       ''- '' @ keyword @ '' Implementation Guide\<newline>'')
                     (take 4 keywords) section
      in section @
         ''\<newline>These topics provide additional insights and practical guidance for your journey.'')"

definition add_seo_elements :: "string \<Rightarrow> string list \<Rightarrow> requirements \<Rightarrow> string" where
  "add_seo_elements content keywords reqs =
     (let content = (if 2 \<le> length keywords
                     then content @ ''\<newline>\<newline>'' @ generate_faq_section keywords reqs
                     else content);
          content = (if \<not> contains ''related topics'' (lower content)
                     then content @ ''\<newline>\<newline>'' @ generate_related_topics_section keywords
                     else content)
      in content)"

definition optimize_content_seo :: "string \<Rightarrow> string list \<Rightarrow> requirements \<Rightarrow> py_error + string" where
  "optimize_content_seo content keywords reqs =
     (case optimize_title_seo content keywords of
        Inl e \<Rightarrow> Inl e
      | Inr optimized_content \<Rightarrow>
          (let optimized_content = optimize_headings_seo optimized_content keywords;
               optimized_content = integrate_keywords_naturally optimized_content keywords;
               optimized_content = optimize_content_structure optimized_content;
               optimized_content = add_seo_elements optimized_content keywords reqs
           in Inr optimized_content))"

subsection \<open>Meta tags\<close>

record meta_tags =
  mt_title :: string
  mt_description :: string
  mt_keywords :: string
  og_title :: string
  og_description :: string
  og_type :: string
  robots :: string
  canonical :: string

definition meta_title :: "string \<Rightarrow> string list \<Rightarrow> requirements \<Rightarrow> string" where
  "meta_title content keywords reqs =
     (let title_line = (case find (\<lambda>line. startswith line ''# '') (split ''\<newline>'' content) of
                          None \<Rightarrow> [] | Some line \<Rightarrow> line);
          title = (if title_line \<noteq> [] then strip (drop 2 title_line)
                   else get_or (topic reqs) ''Untitled'')
      in if 60 < length title then take 57 title @ ''...''
         else if length title < 30
         then (let primary_keyword = (case keywords of [] \<Rightarrow> [] | k # _ \<Rightarrow> k)
               in if primary_keyword \<noteq> [] \<and> \<not> contains primary_keyword title
                  then primary_keyword @ '' - '' @ title
                  else title)
         else title)"

definition meta_description :: "string \<Rightarrow> string list \<Rightarrow> string" where
  "meta_description content keywords =
     (let paragraphs = filter (\<lambda>p. strip p \<noteq> [] \<and> \<not> startswith p ''#'')
                              (split ''\<newline>\<newline>'' content);
          first_para = (case paragraphs of [] \<Rightarrow> [] | p # _ \<Rightarrow> p);
          description = strip (replace ''\<newline>'' '' '' first_para)
      in if 160 < length description then take 157 description @ ''...''
         else if length description < 120
         then (if keywords \<noteq> []
               then description @ '' Learn about '' @ join '', '' (take 2 keywords) @ '' and more.''
               else description)
         else description)"

definition generate_meta_tags :: "string \<Rightarrow> string list \<Rightarrow> requirements \<Rightarrow> meta_tags" where
  "generate_meta_tags content keywords reqs =
     (let title = meta_title content keywords reqs;
          description = meta_description content keywords;
          meta_keywords = (if keywords \<noteq> [] then join '', '' (take 5 keywords) else [])
      in \<lparr> mt_title = title,
           mt_description = description,
           mt_keywords = meta_keywords,
           og_title = title,
           og_description = description,
           og_type = ''article'',
           robots = ''index, follow'',
           canonical = ''https://example.com/'' @ join ''-'' (split_ws (lower title)) \<rparr>)"

subsection \<open>Optimisation log and keyword report\<close>

definition first_title_line :: "string \<Rightarrow> string" where
  "first_title_line content =
     (case find (\<lambda>line. startswith line ''# '') (split ''\<newline>'' content) of
        None \<Rightarrow> [] | Some line \<Rightarrow> line)"

definition track_seo_optimizations :: "string \<Rightarrow> string \<Rightarrow> string list \<Rightarrow> string list" where
  "track_seo_optimizations original optimized keywords =
     (let optimizations =
            concat (map (\<lambda>keyword.
              let original_count = str_count (lower original) (lower keyword);
                  optimized_count = str_count (lower optimized) (lower keyword)
              in if original_count < optimized_count
                 then [''Increased '' @ [CHR 0x27] @ keyword @ [CHR 0x27] @ '' mentions from '' @
                       show_nat original_count @ '' to '' @ show_nat optimized_count]
                 else []) keywords);
          original_headings =
            length (filter (\<lambda>line. startswith line ''##'') (split ''\<newline>'' original));
          optimized_headings =
            length (filter (\<lambda>line. startswith line ''##'') (split ''\<newline>'' optimized));
          optimizations = optimizations @
            (if original_headings < optimized_headings
             then [''Added SEO-optimized headings''] else []);
          optimizations = optimizations @
            (if contains ''frequently asked questions'' (lower optimized) \<and>
                \<not> contains ''frequently asked questions'' (lower original)
             then [''Added FAQ section for long-tail keyword targeting''] else []);
          optimizations = optimizations @
            (if contains ''related topics'' (lower optimized) \<and>
                \<not> contains ''related topics'' (lower original)
             then [''Added related topics section for internal linking''] else []);
          optimizations = optimizations @
            (if first_title_line original \<noteq> first_title_line optimized
             then [''Optimized title for primary keyword''] else [])
      in if optimizations = [] then [''Applied general SEO best practices''] else optimizations)"

record keyword_entry =
  ke_count :: nat
  ke_density :: rat
  in_title :: bool
  in_headings :: bool
  in_first_paragraph :: bool
  optimal_density :: bool

record placement =
  score :: nat
  assessment :: string

record keyword_report =
  total_words :: nat
  kr_keyword_analysis :: "string \<rightharpoonup> keyword_entry"
  density_analysis :: "string \<rightharpoonup> string"
  placement_analysis :: "string \<rightharpoonup> placement"

text \<open>The body of the loop over \<open>keywords\<close> in \<open>_generate_keyword_report\<close>.\<close>

definition report_keyword :: "string \<Rightarrow> string \<Rightarrow> keyword_report \<Rightarrow> py_error + keyword_report" where
  "report_keyword content keyword report =
     (let content_lower = lower content;
          keyword_lower = lower keyword;
          cnt = str_count content_lower keyword_lower
      in case (if 0 < total_words report
               then (case float_truediv (of_nat cnt) (of_nat (total_words report)) of
                       Inl e \<Rightarrow> Inl e | Inr q \<Rightarrow> Inr (float_mul q 100))
               else Inr 0) of
           Inl e \<Rightarrow> Inl e
         | Inr density \<Rightarrow>
             (let in_title = contains keyword_lower (slice_to 100 content_lower);
                  in_headings = list_ex (\<lambda>line. contains keyword_lower (lower line))
                                  (filter (\<lambda>line. startswith line ''#'') (split ''\<newline>'' content));
                  in_first_para = contains keyword_lower (slice_to 500 content_lower);
                  entry = \<lparr> ke_count = cnt,
                            ke_density = round2 density,
                            in_title = in_title,
                            in_headings = in_headings,
                            in_first_paragraph = in_first_para,
                            optimal_density = (1 \<le> density \<and> density \<le> 5 / 2) \<rparr>;
                  assessment = (if density < 1 / 2 then ''Too low - increase usage''
                                else if 3 < density then ''Too high - reduce usage''
                                else ''Optimal range'');
                  placement_score = sum_list (map of_bool [in_title, in_headings, in_first_para])
              in Inr (report
                   \<lparr> kr_keyword_analysis := (kr_keyword_analysis report)(keyword \<mapsto> entry),
                     density_analysis := (density_analysis report)(keyword \<mapsto> assessment),
                     placement_analysis := (placement_analysis report)(keyword \<mapsto>
                        \<lparr> score = placement_score,
                          assessment = (if 2 \<le> placement_score then ''Excellent''
                                        else if placement_score = 1 then ''Good''
                                        else ''Needs improvement'') \<rparr>) \<rparr>)))"

fun report_keywords_loop ::
  "string \<Rightarrow> string list \<Rightarrow> keyword_report \<Rightarrow> py_error + keyword_report" where
  "report_keywords_loop content [] report = Inr report"
| "report_keywords_loop content (keyword # keywords) report =
     (case report_keyword content keyword report of
        Inl e \<Rightarrow> Inl e
      | Inr report' \<Rightarrow> report_keywords_loop content keywords report')"

definition generate_keyword_report :: "string \<Rightarrow> string list \<Rightarrow> py_error + keyword_report" where
  "generate_keyword_report content keywords =
     report_keywords_loop content keywords
       \<lparr> total_words = length (split_ws content), kr_keyword_analysis = Map.empty,
         density_analysis = Map.empty, placement_analysis = Map.empty \<rparr>"

subsection \<open>\<open>optimize_content\<close>\<close>

text \<open>
  Of the analyzer's two results only the keyword part is kept (\<open>seo_analysis\<close>,
  \<open>final_seo_analysis\<close>); \<open>seo_score\<close> and \<open>recommendations\<close> are read from them with
  \<open>.get\<close> and a default and are left out.
\<close>

record seo_output =
  so_original_content :: string
  optimized_content :: string
  target_keywords :: "string list"
  seo_analysis :: "py_error + keyword_analysis"
  final_seo_analysis :: "py_error + keyword_analysis"
  so_meta_tags :: meta_tags
  optimizations_made :: "string list"
  so_keyword_report :: keyword_report

definition optimize_content :: "string \<Rightarrow> requirements \<Rightarrow> py_error + seo_output" where
  "optimize_content content reqs =
     (let target_keywords = get_or (seo_keywords reqs) [];
          analysis = seo_analyzer_run content target_keywords
      in case optimize_content_seo content target_keywords reqs of
           Inl e \<Rightarrow> Inl e
         | Inr optimized \<Rightarrow>
             (let meta_tags = generate_meta_tags optimized target_keywords reqs;
                  final_analysis = seo_analyzer_run optimized target_keywords
              in case generate_keyword_report optimized target_keywords of
                   Inl e \<Rightarrow> Inl e
                 | Inr report \<Rightarrow>
                     Inr \<lparr> so_original_content = content,
                           optimized_content = optimized,
                           target_keywords = target_keywords,
                           seo_analysis = analysis,
                           final_seo_analysis = final_analysis,
                           so_meta_tags = meta_tags,
                           optimizations_made =
                             track_seo_optimizations content optimized target_keywords,
                           so_keyword_report = report \<rparr>))"

section \<open>Coordinator (\<open>agents/coordinator.py\<close>, \<open>CoordinatorAgent\<close>)\<close>

subsection \<open>The content plan\<close>

record task =
  name :: string
  agent :: string
  description :: string
  deliverables :: "string list"
  dependencies :: "string list option"
  estimated_time :: string

record structure_requirements =
  req_has_introduction :: bool
  req_has_conclusion :: bool
  req_has_headings :: bool
  max_paragraph_length :: nat

record seo_requirements =
  keyword_density_min :: rat
  keyword_density_max :: rat
  meta_title_length_min :: nat
  meta_title_length_max :: nat
  meta_description_length_min :: nat
  meta_description_length_max :: nat

text \<open>
  A criteria dictionary is read with \<open>criteria.get(key, default)\<close>, so the two word-count
  bounds are optional; \<open>create_content_plan\<close> always sets them.
\<close>

record quality_criteria =
  minimum_word_count :: "rat option"
  maximum_word_count :: "rat option"
  required_keywords :: "string list"
  readability_score :: nat
  qc_structure_requirements :: structure_requirements
  qc_seo_requirements :: seo_requirements

record timeline =
  estimated_duration :: string
  research_phase :: string
  writing_phase :: string
  editing_phase :: string
  seo_phase :: string
  review_phase :: string

record plan =
  pl_topic :: string
  pl_target_audience :: string
  pl_word_count :: int
  pl_tone :: string
  pl_seo_keywords :: "string list"
  pl_content_type :: string
  tasks :: "task list"
  pl_quality_criteria :: "quality_criteria option"
  pl_timeline :: timeline

definition generate_task_sequence :: "requirements \<Rightarrow> task list" where
  "generate_task_sequence reqs =
     [\<lparr> name = ''research'', agent = ''researcher'',
        description = ''Research comprehensive information about '' @ [CHR 0x27] @
                      get_or (topic reqs) [] @ [CHR 0x27],
        deliverables = [''research_summary'', ''key_facts'', ''source_references''],
        dependencies = None,
        estimated_time = ''15 minutes'' \<rparr>,
      \<lparr> name = ''content_writing'', agent = ''writer'',
        description = ''Write a '' @ show_int (get_or (word_count reqs) 1000) @ ''-word '' @
                      get_or (content_type reqs) ''blog post'',
        deliverables = [''first_draft''],
        dependencies = Some [''research''],
        estimated_time = ''20 minutes'' \<rparr>,
      \<lparr> name = ''editing'', agent = ''editor'',
        description = ''Review and improve content for clarity, flow, and grammar'',
        deliverables = [''edited_content'', ''improvement_notes''],
        dependencies = Some [''content_writing''],
        estimated_time = ''10 minutes'' \<rparr>,
      \<lparr> name = ''seo_optimization'', agent = ''seo'',
        description = ''Optimize content for SEO with keywords: '' @
                      join '', '' (get_or (seo_keywords reqs) []),
        deliverables = [''seo_optimized_content'', ''meta_tags'', ''seo_report''],
        dependencies = Some [''editing''],
        estimated_time = ''10 minutes'' \<rparr>,
      \<lparr> name = ''final_review'', agent = ''coordinator'',
        description = ''Conduct final quality assurance and approval'',
        deliverables = [''final_content'', ''quality_report''],
        dependencies = Some [''seo_optimization''],
        estimated_time = ''5 minutes'' \<rparr>]"

definition define_quality_criteria :: "requirements \<Rightarrow> quality_criteria" where
  "define_quality_criteria reqs =
     \<lparr> minimum_word_count = Some (of_int (get_or (word_count reqs) 1000) * (9 / 10)),
       maximum_word_count = Some (of_int (get_or (word_count reqs) 1000) * (11 / 10)),
       required_keywords = get_or (seo_keywords reqs) [],
       readability_score = 60,
       qc_structure_requirements =
         \<lparr> req_has_introduction = True, req_has_conclusion = True,
           req_has_headings = True, max_paragraph_length = 150 \<rparr>,
       qc_seo_requirements =
         \<lparr> keyword_density_min = 1 / 2, keyword_density_max = 3,
           meta_title_length_min = 30, meta_title_length_max = 60,
           meta_description_length_min = 120, meta_description_length_max = 160 \<rparr> \<rparr>"

definition estimate_timeline :: "requirements \<Rightarrow> timeline" where
  "estimate_timeline reqs =
     (let wc = get_or (word_count reqs) 1000;
          complexity_multiplier = (if 2000 < wc then 3 / 2 else if 1500 < wc then 6 / 5 else (1 :: rat));
          base_time = 60;
          estimated_time = \<lfloor>base_time * complexity_multiplier\<rfloor>
      in \<lparr> estimated_duration = show_int estimated_time @ '' minutes'',
           research_phase = ''15 minutes'',
           writing_phase = ''20 minutes'',
           editing_phase = ''10 minutes'',
           seo_phase = ''10 minutes'',
           review_phase = ''5 minutes'' \<rparr>)"

definition create_content_plan :: "requirements \<Rightarrow> plan" where
  "create_content_plan reqs =
     \<lparr> pl_topic = get_or (topic reqs) [],
       pl_target_audience = get_or (target_audience reqs) ''General audience'',
       pl_word_count = get_or (word_count reqs) 1000,
       pl_tone = get_or (tone reqs) ''Professional'',
       pl_seo_keywords = get_or (seo_keywords reqs) [],
       pl_content_type = get_or (content_type reqs) ''Blog post'',
       tasks = generate_task_sequence reqs,
       pl_quality_criteria = Some (define_quality_criteria reqs),
       pl_timeline = estimate_timeline reqs \<rparr>"

subsection \<open>Quality validation\<close>

text \<open>
  The two entries of \<open>validation_results['checks']\<close>.  Only the word-count entry has a
  \<open>'passed'\<close> key; the score reads every entry with \<open>check.get('passed', True)\<close>.
  \<open>target_range\<close> keeps the two bounds that the source prints as \<open>"{min_words}-{max_words}"\<close>.
\<close>

record word_count_check =
  current :: nat
  target_range :: "rat \<times> rat"
  wc_passed :: bool

record structure_check =
  has_introduction :: bool
  has_conclusion :: bool
  has_headings :: bool

datatype check = Word_count word_count_check | Structure structure_check

definition check_get_passed :: "check \<Rightarrow> bool" where
  "check_get_passed c = (case c of Word_count w \<Rightarrow> wc_passed w | Structure s \<Rightarrow> True)"

text \<open>
  Messages of \<open>feedback\<close> and \<open>improvements_needed\<close>.  The two word-count messages print
  the word count and a float difference; they are kept as data:
  \<open>Too_short w d\<close> is \<open>"Content is too short (w words). Add d more words."\<close> and
  \<open>Too_long w d\<close> is \<open>"Content is too long (w words). Remove d words."\<close>.
\<close>

datatype message = Text string | Too_short nat rat | Too_long nat rat

record quality_validation =
  overall_score :: rat
  passed :: bool
  checks :: "check list"
  feedback :: "message list"
  improvements_needed :: "message list"

definition intro_markers :: "string list" where
  "intro_markers = [''introduction'', ''overview'', ''begin'', ''start'']"

definition conclusion_markers :: "string list" where
  "conclusion_markers = [''conclusion'', ''summary'', ''final'', ''end'']"

definition content_structure :: "string \<Rightarrow> structure_check" where
  "content_structure content =
     \<lparr> has_introduction =
         list_ex (\<lambda>keyword. contains keyword (slice_to 200 (lower content))) intro_markers,
       has_conclusion =
         list_ex (\<lambda>keyword. contains keyword (slice_last 200 (lower content))) conclusion_markers,
       has_headings =
         (contains ''#'' content \<or> list_ex isupper (split ''\<newline>'' content)) \<rparr>"

definition validate_content_quality :: "string \<Rightarrow> plan \<Rightarrow> py_error + quality_validation" where
  "validate_content_quality content pl =
     (let criteria = pl_quality_criteria pl;
          wc = length (split_ws content);
          min_words = (case criteria of None \<Rightarrow> 900 | Some c \<Rightarrow> get_or (minimum_word_count c) 900);
          max_words = (case criteria of None \<Rightarrow> 1100 | Some c \<Rightarrow> get_or (maximum_word_count c) 1100);
          wc_check = \<lparr> current = wc, target_range = (min_words, max_words),
                       wc_passed = (min_words \<le> of_nat wc \<and> of_nat wc \<le> max_words) \<rparr>;
          improvements =
            (if \<not> wc_passed wc_check
             then (if of_nat wc < min_words then [Too_short wc (min_words - of_nat wc)]
                   else [Too_long wc (of_nat wc - max_words)])
             else []);
          cs = [Word_count wc_check, Structure (content_structure content)];
          passed_checks = length (filter check_get_passed cs);
          total_checks = length cs
      in case (if 0 < total_checks
               then (case truediv (of_nat passed_checks) (of_nat total_checks) of
                       Inl e \<Rightarrow> Inl e
                     | Inr q \<Rightarrow> Inr (q * 100, 80 \<le> q * 100))
               else Inr (0, False)) of
           Inl e \<Rightarrow> Inl e
         | Inr (sc, ok) \<Rightarrow>
             Inr \<lparr> overall_score = sc,
                   passed = ok,
                   checks = cs,
                   feedback =
                     (if ok
                      then [Text ''Content meets quality standards and is ready for publication.'']
                      else Text ''Content needs improvements before publication.'' # improvements),
                   improvements_needed = improvements \<rparr>)"

text \<open>\<open>validation['checks']['structure']\<close>.\<close>

definition structure_of :: "quality_validation \<Rightarrow> structure_check option" where
  "structure_of v = (case checks v of [c, Structure s] \<Rightarrow> Some s | _ \<Rightarrow> None)"

section \<open>Research stage (\<open>agents/researcher.py\<close>, \<open>ResearchAgent\<close>)\<close>

text \<open>
  A search result is a dictionary with the keys \<open>title\<close>, \<open>url\<close> and \<open>snippet\<close>, or the
  single key \<open>error\<close>; it is kept as an association list.  The search tool and the regular
  expression engine (\<open>re.findall(pattern, text, re.IGNORECASE)\<close>) are collaborators of the
  stage and are parameters of the model.
\<close>

type_synonym search_result = "(string \<times> string) list"
type_synonym search_tool = "string \<Rightarrow> nat \<Rightarrow> search_result list"
type_synonym regex_findall = "string \<Rightarrow> string \<Rightarrow> string list"

definition has_key :: "search_result \<Rightarrow> string \<Rightarrow> bool" where
  "has_key r k = (map_of r k \<noteq> None)"

definition get_str :: "search_result \<Rightarrow> string \<Rightarrow> string \<Rightarrow> string" where
  "get_str r k d = get_or (map_of r k) d"

text \<open>\<open>[r for r in search_results if 'error' not in r]\<close>\<close>

definition valid_results :: "search_result list \<Rightarrow> search_result list" where
  "valid_results search_results = filter (\<lambda>r. \<not> has_key r ''error'') search_results"

definition generate_research_queries :: "string \<Rightarrow> requirements \<Rightarrow> string list" where
  "generate_research_queries tp reqs =
     (let base_queries =
            [tp, tp @ '' definition'', tp @ '' benefits'', tp @ '' challenges'',
             tp @ '' statistics'', tp @ '' recent developments''];
          audience = get_or (target_audience reqs) [];
          base_queries = base_queries @
            (if audience \<noteq> []
             then [tp @ '' for '' @ audience, tp @ '' '' @ audience @ '' case studies'']
             else []);
          keywords = get_or (seo_keywords reqs) [];
          base_queries = base_queries @ map (\<lambda>keyword. keyword @ '' '' @ tp) (take 3 keywords)
      in take 8 base_queries)"

subsection \<open>Summary\<close>

definition common_words :: "string list" where
  "common_words =
     [''the'', ''and'', ''or'', ''but'', ''in'', ''on'', ''at'', ''to'', ''for'', ''of'',
      ''with'', ''by'', ''from'', ''up'', ''about'', ''into'', ''through'', ''during'',
      ''before'', ''after'', ''above'', ''below'', ''between'', ''among'', ''around'', ''is'',
      ''are'', ''was'', ''were'', ''be'', ''been'', ''being'', ''have'', ''has'', ''had'', ''do'',
      ''does'', ''did'', ''will'', ''would'', ''could'', ''should'', ''may'', ''might'', ''must'',
      ''can'', ''this'', ''that'', ''these'', ''those'', ''a'', ''an'']"

text \<open>\<open>word.strip('.,!?";:()[]{}')\<close>\<close>

definition strip_chars :: "char list" where
  "strip_chars = ''.,!?'' @ [CHR 0x22] @ '';:()[]{}''"

definition strip_punct :: "string \<Rightarrow> string" where
  "strip_punct w =
     rev (dropWhile (\<lambda>c. c \<in> set strip_chars) (rev (dropWhile (\<lambda>c. c \<in> set strip_chars) w)))"

definition extract_main_themes :: "string \<Rightarrow> string" where
  "extract_main_themes text =
     (let words = split_ws (lower text);
          word_freq = fold (\<lambda>word m.
                        let clean_word = strip_punct word
                        in if 3 < length clean_word \<and> clean_word \<notin> set common_words
                           then bump m clean_word else m) words [];
          top_words = take 5 (sort_key (\<lambda>(w, f). - int f) word_freq);
          themes = map fst top_words
      in if themes \<noteq> [] then join '', '' themes else ''General information and insights'')"

definition indent :: string where
  "indent = replicate 8 (CHR '' '')"

definition create_research_summary :: "string \<Rightarrow> search_result list \<Rightarrow> string" where
  "create_research_summary tp search_results =
     (let valid = valid_results search_results
      in if valid = []
         then ''Limited research available on '' @ tp @ ''. Recommend using authoritative sources.''
         else (let combined_text = join '' '' (map (\<lambda>r. get_str r ''snippet'' []) (take 10 valid));
                   summary =
                     ''\<newline>'' @ indent @ ''Research Summary: '' @ tp @ ''\<newline>'' @
                     indent @ ''\<newline>'' @
                     indent @ ''Overview: Based on analysis of '' @ show_nat (length valid) @
                       '' sources, '' @ tp @
                       '' appears to be a significant subject with multiple dimensions worth exploring.\<newline>'' @
                     indent @ ''\<newline>'' @
                     indent @ ''Key Themes Identified:\<newline>'' @
                     indent @ ''- '' @ extract_main_themes combined_text @ ''\<newline>'' @
                     indent @ ''\<newline>'' @
                     indent @ ''Current Status: The topic shows ongoing relevance with recent developments and continued interest from various stakeholders.\<newline>'' @
                     indent @ ''\<newline>'' @
                     indent @ ''Research Confidence: '' @
                       (if 5 \<le> length valid then ''High''
                        else if 3 \<le> length valid then ''Medium'' else ''Low'') @ ''\<newline>'' @
                     indent
               in strip summary))"

subsection \<open>Facts, statistics and quotes\<close>

definition fact_words :: "string list" where
  "fact_words =
     [''is'', ''are'', ''was'', ''were'', ''has'', ''have'', ''can'', ''will'', ''according'']"

fun facts_of_sentences :: "string list \<Rightarrow> string list \<Rightarrow> string list" where
  "facts_of_sentences [] facts = facts"
| "facts_of_sentences (sentence # sentences) facts =
     (if 50 < length (strip sentence) \<and>
         list_ex (\<lambda>word. contains word (lower sentence)) fact_words
      then (let facts = facts @ [strip sentence]
            in if 5 \<le> length facts then facts else facts_of_sentences sentences facts)
      else facts_of_sentences sentences facts)"

definition extract_key_facts :: "search_result list \<Rightarrow> string list" where
  "extract_key_facts search_results =
     take 5 (fold (\<lambda>result facts.
                     facts_of_sentences (split ''.'' (get_str result ''snippet'' [])) facts)
                  (take 5 (valid_results search_results)) [])"

definition stat_patterns :: "string list" where
  "stat_patterns =
     [[CHR 0x5C] @ ''d+%'',
      [CHR 0x5C] @ ''$['' @ [CHR 0x5C] @ ''d,]+'',
      [CHR 0x5C] @ ''d+'' @ [CHR 0x5C] @ ''.'' @ [CHR 0x5C] @ ''d+'' @ [CHR 0x5C] @
        ''s*(million|billion|thousand)'',
      [CHR 0x5C] @ ''d+'' @ [CHR 0x5C] @ ''s*(times|fold)'']"

text \<open>\<open>s.find(sub)\<close> and \<open>s[a:b]\<close> for bounds that are not negative.\<close>

definition str_find :: "string \<Rightarrow> string \<Rightarrow> int" where
  "str_find s sub = (case find_all sub s of [] \<Rightarrow> - 1 | i # _ \<Rightarrow> int i)"

definition slice :: "int \<Rightarrow> int \<Rightarrow> string \<Rightarrow> string" where
  "slice a b s = take (nat b - nat a) (drop (nat a) s)"

fun stats_of_matches :: "string \<Rightarrow> string list \<Rightarrow> string list \<Rightarrow> string list" where
  "stats_of_matches snippet [] statistics = statistics"
| "stats_of_matches snippet (match # matches) statistics =
     (let context = slice (max 0 (str_find snippet match - 50)) (str_find snippet match + 50) snippet;
          statistics = statistics @ [match @ '': '' @ strip context]
      in if 3 \<le> length statistics then statistics
         else stats_of_matches snippet matches statistics)"

definition extract_statistics :: "regex_findall \<Rightarrow> search_result list \<Rightarrow> string list" where
  "extract_statistics findall search_results =
     take 3 (fold (\<lambda>result statistics.
                     let snippet = get_str result ''snippet'' []
                     in fold (\<lambda>pattern statistics.
                                stats_of_matches snippet (findall pattern snippet) statistics)
                             stat_patterns statistics)
                  (valid_results search_results) [])"

text \<open>The parts of \<open>snippet.split('"')\<close> at the odd indices \<open>range(1, len, 2)\<close>.\<close>

fun odd_parts :: "string list \<Rightarrow> string list" where
  "odd_parts (p0 # p1 # ps) = p1 # odd_parts ps"
| "odd_parts ps = []"

fun quotes_of_parts :: "string \<Rightarrow> string list \<Rightarrow> string list \<Rightarrow> string list" where
  "quotes_of_parts title [] quotes = quotes"
| "quotes_of_parts title (part # parts) quotes =
     (if 20 < length part
      then (let quotes = quotes @ [[CHR 0x22] @ part @ [CHR 0x22] @ '' - '' @ title]
            in if 3 \<le> length quotes then quotes else quotes_of_parts title parts quotes)
      else quotes_of_parts title parts quotes)"

definition extract_quotes :: "search_result list \<Rightarrow> string list" where
  "extract_quotes search_results =
     take 3 (fold (\<lambda>result quotes.
                     let snippet = get_str result ''snippet'' [];
                         title = get_str result ''title'' []
                     in if contains [CHR 0x22] snippet
                        then quotes_of_parts title (odd_parts (split [CHR 0x22] snippet)) quotes
                        else quotes)
                  (valid_results search_results) [])"

subsection \<open>Credibility\<close>

definition high_credibility_domains :: "string list" where
  "high_credibility_domains = [''.edu'', ''.gov'', ''.org'', ''wikipedia'', ''scholar.google'']"

definition medium_credibility_domains :: "string list" where
  "medium_credibility_domains = [''.com'', ''news'', ''journal'', ''research'']"

definition quality_indicators :: "string list" where
  "quality_indicators = [''research'', ''study'', ''analysis'', ''report'', ''official'']"

definition assess_single_source_credibility :: "search_result \<Rightarrow> rat" where
  "assess_single_source_credibility source =
     (let url = lower (get_str source ''url'' []);
          title = lower (get_str source ''title'' []);
          score = 1 / 2;
          score = (if list_ex (\<lambda>domain. contains domain url) high_credibility_domains
                   then score + 3 / 10
                   else if list_ex (\<lambda>domain. contains domain url) medium_credibility_domains
                   then score + 1 / 10
                   else score);
          score = (if list_ex (\<lambda>indicator. contains indicator title) quality_indicators
                   then score + 1 / 10 else score)
      in min 1 score)"

definition get_credibility_assessment :: "rat \<Rightarrow> string" where
  "get_credibility_assessment sc =
     (if 4 / 5 \<le> sc then ''High credibility - sources are trustworthy and authoritative''
      else if 3 / 5 \<le> sc then ''Good credibility - sources are generally reliable''
      else if 2 / 5 \<le> sc then ''Medium credibility - sources should be verified''
      else ''Low credibility - additional authoritative sources needed'')"

text \<open>With no valid source the dictionary has the keys \<open>overall_score\<close> and \<open>assessment\<close> only.\<close>

record credibility_assessment =
  ca_overall_score :: rat
  total_sources :: "nat option"
  high_credibility_sources :: "nat option"
  ca_assessment :: string

definition assess_source_credibility ::
  "search_result list \<Rightarrow> py_error + credibility_assessment" where
  "assess_source_credibility search_results =
     (let valid = valid_results search_results;
          credibility_scores = map assess_single_source_credibility valid
      in if credibility_scores = []
         then Inr \<lparr> ca_overall_score = 0, total_sources = None,
                    high_credibility_sources = None,
                    ca_assessment = ''No valid sources found'' \<rparr>
         else (case truediv (sum_list credibility_scores) (of_nat (length credibility_scores)) of
                 Inl e \<Rightarrow> Inl e
               | Inr avg_score \<Rightarrow>
                   Inr \<lparr> ca_overall_score = round2 avg_score,
                         total_sources = Some (length valid),
                         high_credibility_sources =
                           Some (length (filter (\<lambda>sc. 4 / 5 \<le> sc) credibility_scores)),
                         ca_assessment = get_credibility_assessment avg_score \<rparr>))"

subsection \<open>Sources, outline and gaps\<close>

record source_reference =
  sr_title :: string
  sr_url :: string
  sr_snippet :: string
  credibility :: rat

definition compile_sources :: "search_result list \<Rightarrow> source_reference list" where
  "compile_sources search_results =
     sort_key (\<lambda>s. - credibility s)
       (map (\<lambda>result.
               \<lparr> sr_title = get_str result ''title'' ''Unknown Title'',
                 sr_url = get_str result ''url'' [],
                 sr_snippet = take 200 (get_str result ''snippet'' []) @ ''...'',
                 credibility = assess_single_source_credibility result \<rparr>)
            (take 5 (valid_results search_results)))"

definition suggest_content_outline :: "string \<Rightarrow> requirements \<Rightarrow> string list" where
  "suggest_content_outline tp reqs =
     (let ct = lower (get_or (content_type reqs) ''blog post'')
      in if ct \<in> set [''guide'', ''tutorial'', ''how-to'']
         then [''Introduction to '' @ tp, ''Prerequisites and Requirements'',
               ''Step-by-Step Process'', ''Best Practices'', ''Common Mistakes to Avoid'',
               ''Advanced Tips'', ''Conclusion and Next Steps'']
         else if ct \<in> set [''review'', ''comparison'']
         then [''Overview of '' @ tp, ''Methodology'', ''Detailed Analysis'', ''Pros and Cons'',
               ''Comparisons'', ''Recommendations'', ''Final Verdict'']
         else [''Introduction to '' @ tp, ''What is '' @ tp @ ''?'', ''Key Benefits of '' @ tp,
               ''Challenges and Considerations'', ''Current Trends and Developments'',
               ''Practical Applications'', ''Future Outlook'', ''Conclusion''])"

definition recent_indicators :: "string list" where
  "recent_indicators = [''2024'', ''2023'', ''recent'', ''latest'', ''new'', ''current'']"

definition identify_research_gaps :: "string \<Rightarrow> search_result list \<Rightarrow> string list" where
  "identify_research_gaps tp search_results =
     (let valid = valid_results search_results;
          gaps = (if length valid < 3
                  then [''Limited source diversity - recommend finding additional authoritative sources'']
                  else []);
          all_text = lower (join '' '' (map (\<lambda>r. get_str r ''snippet'' [] @ get_str r ''title'' []) valid));
          has_recent_content = list_ex (\<lambda>indicator. contains indicator all_text) recent_indicators;
          gaps = gaps @
            (if \<not> has_recent_content
             then [''Lack of recent information - consider finding more current sources'']
             else []);
          combined_content = lower (join '' '' (map (\<lambda>r. get_str r ''snippet'' []) valid));
          gaps = gaps @
            (if \<not> contains ''however'' combined_content \<and> \<not> contains ''but'' combined_content
             then [''Limited perspective diversity - consider finding contrasting viewpoints'']
             else [])
      in gaps)"

subsection \<open>\<open>conduct_research\<close>\<close>

record research_output =
  ro_topic :: string
  research_summary :: string
  key_facts :: "string list"
  statistics :: "string list"
  expert_quotes :: "string list"
  source_references :: "source_reference list"
  content_outline :: "string list"
  research_gaps :: "string list"
  ro_credibility_assessment :: credibility_assessment

definition conduct_research ::
  "search_tool \<Rightarrow> regex_findall \<Rightarrow> string \<Rightarrow> requirements \<Rightarrow> py_error + research_output" where
  "conduct_research web_search findall tp reqs =
     (let queries = generate_research_queries tp reqs;
          search_results = concat (map (\<lambda>query. web_search query 5) queries)
      in case assess_source_credibility search_results of
           Inl e \<Rightarrow> Inl e
         | Inr cred \<Rightarrow>
             Inr \<lparr> ro_topic = tp,
                   research_summary = create_research_summary tp search_results,
                   key_facts = extract_key_facts search_results,
                   statistics = extract_statistics findall search_results,
                   expert_quotes = extract_quotes search_results,
                   source_references = compile_sources search_results,
                   content_outline = suggest_content_outline tp reqs,
                   research_gaps = identify_research_gaps tp search_results,
                   ro_credibility_assessment = cred \<rparr>)"

section \<open>Normal form of edited text\<close>








section \<open>Concrete inputs\<close>

text \<open>Inputs at which the properties below are evaluated.\<close>

definition no_keyword_requirements :: requirements where
  "no_keyword_requirements =
     \<lparr> topic = Some ''Remote Work'', target_audience = None, word_count = None,
       tone = None, content_type = None, seo_keywords = Some [] \<rparr>"

definition seo_sample :: string where
  "seo_sample = ''# Remote Work Guide\<newline>\<newline>Productivity matters.''"

definition sample_source :: search_result where
  "sample_source =
     [(''title'', ''Remote Work Study''), (''url'', ''https://example.com/remote''),
      (''snippet'', ''Remote work is growing.'')]"

definition error_source :: search_result where
  "error_source = [(''error'', ''Search failed: timeout'')]"

definition failing_search :: search_tool where
  "failing_search query n = [[(''error'', ''Search failed: timeout'')]]"

definition no_matches :: regex_findall where
  "no_matches pattern text = []"

definition ten_word_requirements :: requirements where
  "ten_word_requirements =
     \<lparr> topic = Some ''Remote Work'', target_audience = None, word_count = Some 10,
       tone = None, content_type = None, seo_keywords = None \<rparr>"

definition no_conclusion_content :: string where
  "no_conclusion_content = ''Remote teams share updates daily and plan their week together''"

definition long_keyword_requirements :: requirements where
  "long_keyword_requirements =
     \<lparr> topic = Some ''Remote Work'', target_audience = None, word_count = None,
       tone = None, content_type = None,
       seo_keywords = Some [''remote work productivity tips''] \<rparr>"

definition short_title_content :: string where
  "short_title_content =
     ''# Remote Work Productivity Tips\<newline>\<newline>Distributed teams regularly outperform expectations whenever communication remains transparent and deliberate.''"



section \<open>Verified properties\<close>

subsection \<open>String primitives\<close>

lemma contains_iff_sublist: "contains sub s \<longleftrightarrow> sublist sub s"
  by (induction s) (simp_all add: sublist_Cons_right)

lemma split_aux_nonempty: "split_aux sep acc s \<noteq> []"
  by (induction sep acc s rule: split_aux.induct) simp_all

lemma join_split_aux: "sep \<noteq> [] \<Longrightarrow> join sep (split_aux sep acc s) = rev acc @ s"
proof (induction sep acc s rule: split_aux.induct)
  case (1 sep acc)
  then show ?case by simp
next
  case (2 sep acc c cs)
  show ?case
  proof (cases "prefix sep (c # cs)")
    case True
    let ?rest = "drop (length sep) (c # cs)"
    have whole: "sep @ ?rest = c # cs"
      using True by (metis append_eq_conv_conj prefix_def)
    obtain x xs where sp: "split_aux sep [] ?rest = x # xs"
      using split_aux_nonempty [of sep "[]" ?rest]
      by (cases "split_aux sep [] ?rest") simp_all
    have ih: "join sep (split_aux sep [] ?rest) = ?rest"
      using 2 True by simp
    have "split_aux sep acc (c # cs) = rev acc # x # xs"
      using True 2(3) sp by simp
    then have "join sep (split_aux sep acc (c # cs)) = rev acc @ sep @ join sep (x # xs)"
      by simp
    also have "\<dots> = rev acc @ sep @ ?rest"
      using ih sp by simp
    finally show ?thesis
      using whole by simp
  next
    case False
    then show ?thesis using 2 by simp
  qed
qed

lemma join_split: "sep \<noteq> [] \<Longrightarrow> join sep (split sep s) = s"
  by (simp add: split_def join_split_aux)

subsection \<open>SEO stage without keywords\<close>

lemma title_lines_no_keywords: "optimize_title_lines ls [] = Inr ls"
  by (induction ls) (simp_all add: optimize_title_line_def)

lemma optimize_title_seo_no_keywords: "optimize_title_seo C [] = Inr C"
  by (simp add: optimize_title_seo_def title_lines_no_keywords join_split)

lemma optimize_content_seo_no_keywords:
  "optimize_content_seo C [] reqs =
     Inr (let c = optimize_content_structure C
          in if contains ''related topics'' (lower c) then c
             else c @ ''\<newline>\<newline>'' @ generate_related_topics_section [])"
  by (simp add: optimize_content_seo_def optimize_title_seo_no_keywords optimize_headings_seo_def
      integrate_keywords_naturally_def add_seo_elements_def Let_def)

text \<open>
  Claim C4 (as amended).  With an empty keyword list \<open>optimize_content\<close> returns a result
  (no \<open>ZeroDivisionError\<close>, no \<open>IndexError\<close>); the title, heading and keyword steps leave
  the content as it is, no FAQ section is appended, and the Related Topics section, with no
  bullet lines, is appended unless the text already contains \<open>related topics\<close>.
\<close>

theorem no_keywords_optimize:
  assumes "get_or (seo_keywords reqs) [] = []"
  shows "\<exists>out. optimize_content C reqs = Inr out
           \<and> optimized_content out =
               (let c = optimize_content_structure C
                in if contains ''related topics'' (lower c) then c
                   else c @ ''\<newline>\<newline>'' @ generate_related_topics_section [])
           \<and> target_keywords out = []"
  using assms
  by (simp add: optimize_content_def optimize_content_seo_no_keywords generate_keyword_report_def Let_def)

theorem no_keywords_optimize_witness:
  "\<exists>out. optimize_content ''Hello'' no_keyword_requirements = Inr out
     \<and> optimized_content out =
         ''Hello\<newline>\<newline>## Related Topics\<newline>\<newline>Explore these related subjects to deepen your understanding:\<newline>\<newline>\<newline>These topics provide additional insights and practical guidance for your journey.''
     \<and> target_keywords out = []"
proof -
  have h: "get_or (seo_keywords no_keyword_requirements) [] = []"
    by (simp add: no_keyword_requirements_def get_or_def)
  have c: "optimize_content_structure ''Hello'' = ''Hello''" by code_simp
  have l: "lower ''Hello'' = ''hello''" by code_simp
  have n: "\<not> contains ''related topics'' ''hello''" by code_simp
  have g: "generate_related_topics_section [] = ''## Related Topics\<newline>\<newline>Explore these related subjects to deepen your understanding:\<newline>\<newline>\<newline>These topics provide additional insights and practical guidance for your journey.''"
    by code_simp
  show ?thesis
    using no_keywords_optimize [OF h, of "''Hello''"] unfolding c l Let_def using n g by simp
qed

text \<open>
  Claim C4 as stated fails: for the content \<open>Hello\<close> and no keywords the optimized content
  ends with a Related Topics section.
\<close>

theorem related_topics_counterexample:
  "(case optimize_content ''Hello'' no_keyword_requirements of
      Inl e \<Rightarrow> []
    | Inr out \<Rightarrow> optimized_content out) =
   ''Hello\<newline>\<newline>## Related Topics\<newline>\<newline>Explore these related subjects to deepen your understanding:\<newline>\<newline>\<newline>These topics provide additional insights and practical guidance for your journey.''"
  by code_simp

subsection \<open>Content Validator\<close>

lemma punct_runs_skip: "\<not> is_punct c \<Longrightarrow> punct_runs (c # cs) = punct_runs cs"
  by (cases cs) simp_all

lemma punct_runs_run:
  "is_punct c \<Longrightarrow> punct_runs (c # cs) = Suc (punct_runs (dropWhile is_punct cs))"
  by (induction cs arbitrary: c) simp_all

lemma length_re_split_aux: "length (re_split_aux acc s) = Suc (punct_runs s)"
  by (induction acc s rule: re_split_aux.induct) (simp_all add: punct_runs_skip punct_runs_run)

lemma calculate_readability_returns: "\<exists>r. calculate_readability C = Inr r"
  by (auto simp: calculate_readability_def Let_def truediv_def)

lemma quality_score_range:
  "0 \<le> calculate_quality_score m \<and> calculate_quality_score m \<le> 100"
  by (simp add: calculate_quality_score_def Let_def)

text \<open>
  Claim C7.  The validator never returns the error dictionary.  Its \<open>sentence_count\<close> is the
  number of pieces that splitting on runs of \<open>.\<close>, \<open>!\<close> and \<open>?\<close> yields, minus one, which is
  the number of such runs; the quality score is not negative.  On the empty string the word
  count and the sentence count are 0 and the quality score is 45.
\<close>

theorem validator_sentence_count:
  "(\<exists>v. validator_run C = Inr v
        \<and> vr_sentence_count v = int (length (re_split_punct C)) - 1
        \<and> vr_sentence_count v = int (punct_runs C)
        \<and> 0 \<le> vr_quality_score v)
   \<and> validator_run [] =
         Inr \<lparr> vr_word_count = 0, vr_character_count = 0, vr_sentence_count = 0,
               vr_paragraph_count = 0, vr_readability_score = 0,
               vr_issues = [''Content doesn'' @ [CHR 0x27] @ ''t end with proper punctuation''],
               vr_quality_score = 45 \<rparr>"
proof
  obtain r where r: "calculate_readability C = Inr r"
    using calculate_readability_returns by blast
  show "\<exists>v. validator_run C = Inr v
        \<and> vr_sentence_count v = int (length (re_split_punct C)) - 1
        \<and> vr_sentence_count v = int (punct_runs C)
        \<and> 0 \<le> vr_quality_score v"
    using quality_score_range
    by (simp add: validator_run_def r Let_def re_split_punct_def length_re_split_aux)
next
  show "validator_run [] =
         Inr \<lparr> vr_word_count = 0, vr_character_count = 0, vr_sentence_count = 0,
               vr_paragraph_count = 0, vr_readability_score = 0,
               vr_issues = [''Content doesn'' @ [CHR 0x27] @ ''t end with proper punctuation''],
               vr_quality_score = 45 \<rparr>"
    by code_simp
qed

theorem validator_sentence_count_witness:
  "\<exists>v. validator_run ''Hello world. This is it! Really?? yes'' = Inr v
        \<and> vr_sentence_count v = 3 \<and> 0 \<le> vr_quality_score v"
proof -
  have "punct_runs ''Hello world. This is it! Really?? yes'' = 3" by code_simp
  then show ?thesis
    using validator_sentence_count [of "''Hello world. This is it! Really?? yes''"] by auto
qed

subsection \<open>Double rounding\<close>

lemma pow2_powi: "pow2 k = 2 powi k"
  by (simp add: pow2_def power_int_def inverse_eq_divide power_one_over)

lemma pow2_pos: "0 < pow2 k"
  by (simp add: pow2_powi)

lemma bits_bounds:
  "0 < n \<Longrightarrow> 1 \<le> bits n \<and> 2 ^ nat (bits n - 1) \<le> n \<and> n < 2 ^ nat (bits n)"
proof (induction n rule: bits.induct)
  case (1 n)
  have b: "bits n = 1 + bits (n div 2)"
    using 1(2) by (subst bits.simps) simp
  show ?case
  proof (cases "n div 2 \<le> 0")
    case True
    then have "n = 1" using 1(2) by presburger
    then show ?thesis by (simp add: bits.simps)
  next
    case False
    then have ih: "1 \<le> bits (n div 2)" "2 ^ nat (bits (n div 2) - 1) \<le> n div 2"
      "n div 2 < 2 ^ nat (bits (n div 2))"
      using 1 by auto
    have "nat (bits n - 1) = Suc (nat (bits (n div 2) - 1))"
      using b ih(1) by simp
    then have "(2::int) ^ nat (bits n - 1) = 2 * 2 ^ nat (bits (n div 2) - 1)"
      by simp
    then have lo: "2 ^ nat (bits n - 1) \<le> n"
      using ih(2) by linarith
    have "nat (bits n) = Suc (nat (bits (n div 2)))"
      using b ih(1) by simp
    then have "(2::int) ^ nat (bits n) = 2 * 2 ^ nat (bits (n div 2))"
      by simp
    then have hi: "n < 2 ^ nat (bits n)"
      using ih(3) by linarith
    show ?thesis
      using lo hi b ih(1) by simp
  qed
qed

lemma pow2_nat: "0 \<le> k \<Longrightarrow> pow2 k = of_int (2 ^ nat k)"
  by (simp add: pow2_def)

lemma exponent_bounds:
  assumes "0 < x"
  shows "pow2 (exponent x) \<le> x \<and> x < pow2 (exponent x + 1)"
proof (cases "1 \<le> x")
  case True
  let ?n = "\<lfloor>x\<rfloor>"
  have n: "0 < ?n" using True by linarith
  have b: "1 \<le> bits ?n" "2 ^ nat (bits ?n - 1) \<le> ?n" "?n < 2 ^ nat (bits ?n)"
    using bits_bounds [OF n] by auto
  have "pow2 (bits ?n - 1) = of_int (2 ^ nat (bits ?n - 1))"
    using b(1) by (simp add: pow2_nat)
  also have "\<dots> \<le> of_int ?n"
    using b(2) by (simp only: of_int_le_iff)
  also have "\<dots> \<le> x" by simp
  finally have lo: "pow2 (bits ?n - 1) \<le> x" .
  have "?n + 1 \<le> 2 ^ nat (bits ?n)" using b(3) by simp
  then have "(of_int (?n + 1) :: rat) \<le> of_int (2 ^ nat (bits ?n))"
    by (simp only: of_int_le_iff)
  moreover have "x < of_int (?n + 1)" by linarith
  ultimately have "x < of_int (2 ^ nat (bits ?n))" by linarith
  then have hi: "x < pow2 (bits ?n - 1 + 1)"
    using b(1) by (simp add: pow2_nat)
  show ?thesis
    using True lo hi by (simp add: exponent_def)
next
  case False
  let ?n = "\<lfloor>1 / x\<rfloor>"
  let ?b = "bits ?n"
  have y: "1 < 1 / x" using assms False by simp
  then have n: "0 < ?n" by linarith
  have b: "1 \<le> ?b" "2 ^ nat (?b - 1) \<le> ?n" "?n < 2 ^ nat ?b"
    using bits_bounds [OF n] by auto
  have neg: "\<And>k. 0 \<le> k \<Longrightarrow> pow2 (- k) = 1 / of_int (2 ^ nat k)"
    by (simp add: pow2_def)
  have up: "x \<le> pow2 (1 - ?b)"
  proof -
    have "(of_int (2 ^ nat (?b - 1)) :: rat) \<le> of_int ?n"
      using b(2) by (simp only: of_int_le_iff)
    also have "\<dots> \<le> 1 / x" by simp
    finally have "x * of_int (2 ^ nat (?b - 1)) \<le> 1"
      using assms by (simp add: field_simps)
    then have "x \<le> 1 / of_int (2 ^ nat (?b - 1))"
      by (simp add: field_simps)
    then show ?thesis
      using neg [of "?b - 1"] b(1) by simp
  qed
  have down: "pow2 (- ?b) < x"
  proof -
    have "?n + 1 \<le> 2 ^ nat ?b" using b(3) by simp
    then have "(of_int (?n + 1) :: rat) \<le> of_int (2 ^ nat ?b)"
      by (simp only: of_int_le_iff)
    moreover have "1 / x < of_int (?n + 1)" by linarith
    ultimately have "1 / x < of_int (2 ^ nat ?b)" by linarith
    then have "1 < x * of_int (2 ^ nat ?b)"
      using assms by (simp add: field_simps)
    then have "1 / of_int (2 ^ nat ?b) < x"
      by (simp add: field_simps)
    then show ?thesis
      using neg [of ?b] b(1) by simp
  qed
  have "pow2 (1 - ?b + 1) = pow2 (1 - ?b) * 2"
    unfolding pow2_powi by (subst power_int_add) simp_all
  then have step: "pow2 (1 - ?b) < pow2 (1 - ?b + 1)"
    using pow2_pos [of "1 - ?b"] by simp
  show ?thesis
  proof (cases "pow2 (1 - ?b) \<le> x")
    case True
    then show ?thesis
      using False up step by (simp add: exponent_def Let_def)
  next
    case c: False
    have "- ?b + 1 = 1 - ?b" by simp
    then show ?thesis
      using False c down by (simp add: exponent_def Let_def)
  qed
qed

lemma exponent_lower: "0 < x \<Longrightarrow> pow2 (exponent x) \<le> x"
  using exponent_bounds by blast

lemma round_half_even_error: "\<bar>of_int (round_half_even y) - y\<bar> \<le> 1 / 2"
proof -
  have "of_int \<lfloor>y\<rfloor> \<le> y" "y < of_int \<lfloor>y\<rfloor> + 1" by linarith+
  then show ?thesis
    by (auto simp: round_half_even_def Let_def abs_le_iff)
qed

lemma fl_error:
  assumes "0 \<le> x"
  shows "\<bar>fl x - x\<bar> \<le> x / 2 ^ 53"
proof (cases "x = 0")
  case True
  then show ?thesis by (simp add: fl_def)
next
  case False
  then have pos: "0 < x" using assms by simp
  define ulp where "ulp = pow2 (exponent x - 52)"
  have ulp_pos: "0 < ulp" by (simp add: ulp_def pow2_pos)
  have "ulp * 2 ^ 52 = pow2 (exponent x)"
    by (simp add: ulp_def pow2_powi power_int_diff)
  then have ulp_le: "ulp * 2 ^ 52 \<le> x"
    using exponent_lower [OF pos] by simp
  have flx: "fl x = of_int (round_half_even (x / ulp)) * ulp"
    using pos by (simp add: fl_def Let_def ulp_def)
  have "fl x - x = (of_int (round_half_even (x / ulp)) - x / ulp) * ulp"
    using ulp_pos by (simp add: flx field_simps)
  then have "\<bar>fl x - x\<bar> = \<bar>of_int (round_half_even (x / ulp)) - x / ulp\<bar> * ulp"
    using ulp_pos by (simp add: abs_mult)
  also have "\<dots> \<le> 1 / 2 * ulp"
    using round_half_even_error [of "x / ulp"] ulp_pos by (intro mult_right_mono) simp_all
  also have "\<dots> \<le> x / 2 ^ 53"
    using ulp_le by simp
  finally show ?thesis .
qed

lemma fl_nonneg:
  assumes "0 \<le> x"
  shows "0 \<le> fl x"
proof -
  have "x / 2 ^ 53 \<le> x" using assms by (simp add: field_simps)
  then show ?thesis
    using fl_error [OF assms] by linarith
qed

lemma round2_error: "\<bar>round2 y - y\<bar> \<le> 1 / 200"
proof -
  have "of_int \<lfloor>y * 100\<rfloor> \<le> y * 100" "y * 100 < of_int \<lfloor>y * 100\<rfloor> + 1" by linarith+
  then show ?thesis
    by (auto simp: round2_def Let_def abs_le_iff field_simps)
qed

lemma double_density_error:
  assumes "0 \<le> x"
  shows "\<bar>round2 (fl (fl x * 100)) - 100 * x\<bar> \<le> 1 / 200 + 100 * x / 2 ^ 51"
proof -
  let ?a = "fl x" and ?b = "fl (fl x * 100)"
  have a: "\<bar>?a - x\<bar> \<le> x / 2 ^ 53" and a0: "0 \<le> ?a"
    using fl_error [OF assms] fl_nonneg [OF assms] by simp_all
  have "x / 2 ^ 53 \<le> x" using assms by (simp add: field_simps)
  then have a2: "?a \<le> 2 * x" using a by linarith
  have "\<bar>?b - ?a * 100\<bar> \<le> ?a * 100 / 2 ^ 53"
    using fl_error [of "?a * 100"] a0 by simp
  also have "\<dots> \<le> 200 * x / 2 ^ 53"
    using a2 by (simp add: field_simps)
  finally have b: "\<bar>?b - ?a * 100\<bar> \<le> 200 * x / 2 ^ 53" .
  have r: "\<bar>round2 ?b - ?b\<bar> \<le> 1 / 200"
    by (rule round2_error)
  have "\<bar>round2 ?b - 100 * x\<bar> \<le> 1 / 200 + 200 * x / 2 ^ 53 + 100 * (x / 2 ^ 53)"
    using a b r by linarith
  also have "\<dots> \<le> 1 / 200 + 100 * x / 2 ^ 51"
    using assms by (simp add: field_simps)
  finally show ?thesis .
qed

subsection \<open>Keyword density\<close>

lemma analyze_keywords_loop_density:
  assumes "0 < length (split_ws C)"
  shows "\<exists>ka'. analyze_keywords_loop C ks ka = Inr ka'
           \<and> (\<forall>K. keyword_density ka' K =
                 (if K \<in> set ks
                  then Some (round2 (fl (fl (of_nat (str_count (lower C) (lower K)) /
                                             of_nat (length (split_ws C))) * 100)))
                  else keyword_density ka K))"
  using assms
proof (induction ks arbitrary: ka)
  case Nil
  then show ?case by simp
next
  case (Cons k ks)
  obtain ka1 where step: "analyze_keyword C k ka = Inr ka1"
    and dens: "keyword_density ka1 =
      (keyword_density ka)(k \<mapsto> round2 (fl (fl (of_nat (str_count (lower C) (lower k)) /
                                             of_nat (length (split_ws C))) * 100)))"
    using Cons.prems by (simp add: analyze_keyword_def Let_def float_truediv_def float_mul_def)
  from Cons.IH [OF Cons.prems, of ka1] obtain ka' where
    loop: "analyze_keywords_loop C ks ka1 = Inr ka'" and
    inv: "\<forall>K. keyword_density ka' K =
                 (if K \<in> set ks
                  then Some (round2 (fl (fl (of_nat (str_count (lower C) (lower K)) /
                                             of_nat (length (split_ws C))) * 100)))
                  else keyword_density ka1 K)"
    by blast
  show ?case
    using step loop inv dens by auto
qed

lemma keyword_density_value:
  assumes "K \<in> set ks" and "0 < length (split_ws C)"
  shows "density_of (seo_analyzer_run C ks) K =
           Some (round2 (fl (fl (of_nat (str_count (lower C) (lower K)) /
                                 of_nat (length (split_ws C))) * 100)))"
proof -
  from analyze_keywords_loop_density [OF assms(2)] obtain ka' where
    "analyze_keywords C ks = Inr ka'" and
    "\<forall>K. keyword_density ka' K =
                 (if K \<in> set ks
                  then Some (round2 (fl (fl (of_nat (str_count (lower C) (lower K)) /
                                             of_nat (length (split_ws C))) * 100)))
                  else None)"
    unfolding analyze_keywords_def by fastforce
  then show ?thesis
    using assms(1) by (simp add: density_of_def seo_analyzer_run_def)
qed

lemma double_density_examples:
  "round2 (fl (fl (1 / 3) * 100)) = 3333 / 100"
  "round2 (fl (fl (23 / 160) * 100)) = 1437 / 100"
  "round2 (fl (fl (49 / 160) * 100)) = 3063 / 100"
  by code_simp+

lemma keyword_density_23_of_160:
  assumes "K \<in> set ks" and "length (split_ws C) = 160"
    and "str_count (lower C) (lower K) = 23"
  shows "density_of (seo_analyzer_run C ks) K = Some (1437 / 100)"
proof -
  have "0 < length (split_ws C)" using assms(2) by simp
  from keyword_density_value [OF assms(1) this] show ?thesis
    unfolding assms(2,3) by (simp add: double_density_examples)
qed

text \<open>
  Claim C2 (as amended).  For content with at least one word and a keyword \<open>K\<close> of the list,
  \<open>keyword_density[K]\<close> is defined; it is the double \<open>(occurrences / word_count) \<times> 100\<close>
  rounded to two decimals, the occurrences counted on the lower-cased text, and it differs
  from the exact \<open>100 \<times> occurrences / word_count\<close> by at most 0.005 plus the relative
  error \<open>2\<^sup>-\<^sup>5\<^sup>1\<close> of the two double operations.
\<close>

theorem keyword_density_rounded:
  assumes "K \<in> set ks" and "0 < length (split_ws C)"
  shows "\<exists>d. density_of (seo_analyzer_run C ks) K = Some d
           \<and> d = round2 (fl (fl (of_nat (str_count (lower C) (lower K)) /
                                  of_nat (length (split_ws C))) * 100))
           \<and> \<bar>d - 100 * of_nat (str_count (lower C) (lower K)) / of_nat (length (split_ws C))\<bar>
               \<le> 1 / 200 + (100 * of_nat (str_count (lower C) (lower K)) /
                                of_nat (length (split_ws C))) / 2 ^ 51"
proof -
  let ?x = "of_nat (str_count (lower C) (lower K)) / of_nat (length (split_ws C)) :: rat"
  have "0 \<le> ?x" by simp
  from double_density_error [OF this] keyword_density_value [OF assms]
  show ?thesis by simp
qed

theorem keyword_density_rounded_witness:
  "density_of (seo_analyzer_run ''a b c'' [''a'']) ''a'' = Some (3333 / 100)"
proof -
  have k: "''a'' \<in> set [''a'']" by simp
  have w: "length (split_ws ''a b c'') = 3" by code_simp
  have c: "str_count (lower ''a b c'') (lower ''a'') = 1" by code_simp
  have p: "0 < length (split_ws ''a b c'')" using w by simp
  from keyword_density_rounded [OF k p] obtain d where
    d: "density_of (seo_analyzer_run ''a b c'' [''a'']) ''a'' = Some d"
       "d = round2 (fl (fl (of_nat (str_count (lower ''a b c'') (lower ''a'')) /
                              of_nat (length (split_ws ''a b c''))) * 100))"
    by blast
  have "d = 3333 / 100"
    using d(2) unfolding w c by (simp add: double_density_examples)
  then show ?thesis
    using d(1) by simp
qed

text \<open>
  Claim C2 as stated fails: one occurrence in three words gives 33.33, not \<open>100 / 3\<close>; and
  for the empty content the dictionary has no entry for the keyword at all.
\<close>

theorem keyword_density_counterexample:
  "density_of (seo_analyzer_run ''a b c'' [''a'']) ''a'' \<noteq>
     Some (100 * of_nat (str_count (lower ''a b c'') (lower ''a'')) / of_nat (length (split_ws ''a b c'')))
   \<and> density_of (seo_analyzer_run [] [''a'']) ''a'' \<noteq> Some 0"
proof
  have k: "''a'' \<in> set [''a'']" by simp
  have w: "length (split_ws ''a b c'') = 3" by code_simp
  have c: "str_count (lower ''a b c'') (lower ''a'') = 1" by code_simp
  have p: "0 < length (split_ws ''a b c'')" using w by simp
  have "density_of (seo_analyzer_run ''a b c'' [''a'']) ''a'' = Some (3333 / 100)"
    using keyword_density_value [OF k p] unfolding w c by (simp add: double_density_examples)
  then show "density_of (seo_analyzer_run ''a b c'' [''a'']) ''a'' \<noteq>
     Some (100 * of_nat (str_count (lower ''a b c'') (lower ''a'')) / of_nat (length (split_ws ''a b c'')))"
    unfolding w c by simp
next
  show "density_of (seo_analyzer_run [] [''a'']) ''a'' \<noteq> Some 0"
    by code_simp
qed

subsection \<open>Keyword report\<close>

lemma report_keyword_entry:
  "\<exists>rep' e p. report_keyword C k rep = Inr rep'
      \<and> total_words rep' = total_words rep
      \<and> kr_keyword_analysis rep' = (kr_keyword_analysis rep)(k \<mapsto> e)
      \<and> placement_analysis rep' = (placement_analysis rep)(k \<mapsto> p)
      \<and> in_title e = contains (lower k) (take 100 (lower C))
      \<and> in_first_paragraph e = contains (lower k) (take 500 (lower C))
      \<and> score p = of_bool (in_title e) + of_bool (in_headings e) + of_bool (in_first_paragraph e)"
proof -
  let ?cnt = "str_count (lower C) (lower k)"
  obtain d where d:
    "(if 0 < total_words rep
      then (case float_truediv (of_nat ?cnt) (of_nat (total_words rep)) of
              Inl e \<Rightarrow> Inl e | Inr q \<Rightarrow> Inr (float_mul q 100))
      else Inr 0) = (Inr d :: py_error + rat)"
    by (cases "0 < total_words rep") (simp_all add: float_truediv_def)
  let ?t = "contains (lower k) (take 100 (lower C))"
  let ?h = "list_ex (\<lambda>line. contains (lower k) (lower line))
              (filter (\<lambda>line. startswith line ''#'') (split ''\<newline>'' C))"
  let ?f = "contains (lower k) (take 500 (lower C))"
  define e where "e = \<lparr> ke_count = ?cnt, ke_density = round2 d, in_title = ?t, in_headings = ?h,
     in_first_paragraph = ?f, optimal_density = (1 \<le> d \<and> d \<le> 5 / 2) \<rparr>"
  define n :: nat where "n = sum_list (map of_bool [?t, ?h, ?f])"
  define p where "p = \<lparr> score = n,
     assessment = (if 2 \<le> n then ''Excellent'' else if n = 1 then ''Good''
                   else ''Needs improvement'') \<rparr>"
  have "report_keyword C k rep =
      Inr (rep\<lparr> kr_keyword_analysis := (kr_keyword_analysis rep)(k \<mapsto> e),
                density_analysis := (density_analysis rep)(k \<mapsto>
                   (if d < 1 / 2 then ''Too low - increase usage''
                    else if 3 < d then ''Too high - reduce usage'' else ''Optimal range'')),
                placement_analysis := (placement_analysis rep)(k \<mapsto> p) \<rparr>)"
    unfolding report_keyword_def Let_def d slice_to_def e_def p_def n_def
    by (simp only: sum.case)
  moreover have "in_title e = ?t" "in_first_paragraph e = ?f"
    "score p = of_bool (in_title e) + of_bool (in_headings e) + of_bool (in_first_paragraph e)"
    by (simp_all add: e_def p_def n_def)
  ultimately show ?thesis
    by (intro exI [of _ "rep\<lparr> kr_keyword_analysis := (kr_keyword_analysis rep)(k \<mapsto> e),
                density_analysis := (density_analysis rep)(k \<mapsto>
                   (if d < 1 / 2 then ''Too low - increase usage''
                    else if 3 < d then ''Too high - reduce usage'' else ''Optimal range'')),
                placement_analysis := (placement_analysis rep)(k \<mapsto> p) \<rparr>"] exI [of _ e] exI [of _ p]) simp
qed

lemma report_keywords_loop_entry:
  fixes C K
  defines "good \<equiv> \<lambda>rep. \<exists>e p. kr_keyword_analysis rep K = Some e
      \<and> placement_analysis rep K = Some p
      \<and> in_title e = contains (lower K) (take 100 (lower C))
      \<and> in_first_paragraph e = contains (lower K) (take 500 (lower C))
      \<and> score p = of_bool (in_title e) + of_bool (in_headings e) + of_bool (in_first_paragraph e)"
  shows "\<exists>rep'. report_keywords_loop C ks rep = Inr rep' \<and> (K \<in> set ks \<or> good rep \<longrightarrow> good rep')"
proof (induction ks arbitrary: rep)
  case Nil
  then show ?case by simp
next
  case (Cons k ks)
  obtain rep1 e p where step: "report_keyword C k rep = Inr rep1"
    and kr: "kr_keyword_analysis rep1 = (kr_keyword_analysis rep)(k \<mapsto> e)"
    and pl: "placement_analysis rep1 = (placement_analysis rep)(k \<mapsto> p)"
    and props: "in_title e = contains (lower k) (take 100 (lower C))"
      "in_first_paragraph e = contains (lower k) (take 500 (lower C))"
      "score p = of_bool (in_title e) + of_bool (in_headings e) + of_bool (in_first_paragraph e)"
    using report_keyword_entry [of C k rep] by blast
  have one: "K = k \<or> good rep \<Longrightarrow> good rep1"
  proof (cases "K = k")
    case True
    then show ?thesis
      unfolding good_def using kr pl props by simp
  next
    case False
    assume "K = k \<or> good rep"
    with False have "good rep" by simp
    then show ?thesis
      unfolding good_def using kr pl False by simp
  qed
  obtain rep' where loop: "report_keywords_loop C ks rep1 = Inr rep'"
    and rest: "K \<in> set ks \<or> good rep1 \<longrightarrow> good rep'"
    using Cons.IH [of rep1] by blast
  have "report_keywords_loop C (k # ks) rep = Inr rep'"
    using step loop by simp
  moreover have "K \<in> set (k # ks) \<or> good rep \<longrightarrow> good rep'"
    using one rest by auto
  ultimately show ?case by blast
qed

text \<open>
  Claim C9.  For a keyword \<open>K\<close> of the list, the report's \<open>in_title\<close> holds exactly when
  the lower-cased keyword is a substring of the first 100 characters of the lower-cased
  content, \<open>in_first_paragraph\<close> exactly when it is one of the first 500, and the placement
  score is the number of true flags among \<open>in_title\<close>, \<open>in_headings\<close> and
  \<open>in_first_paragraph\<close>, so it is 0, 1, 2 or 3.
\<close>

theorem keyword_report_placement:
  assumes "K \<in> set keywords"
  shows "\<exists>rep e p. generate_keyword_report C keywords = Inr rep
      \<and> kr_keyword_analysis rep K = Some e
      \<and> placement_analysis rep K = Some p
      \<and> (in_title e \<longleftrightarrow> sublist (lower K) (take 100 (lower C)))
      \<and> (in_first_paragraph e \<longleftrightarrow> sublist (lower K) (take 500 (lower C)))
      \<and> score p = of_bool (in_title e) + of_bool (in_headings e) + of_bool (in_first_paragraph e)
      \<and> score p \<in> {0, 1, 2, 3}"
proof -
  obtain rep e p where r: "generate_keyword_report C keywords = Inr rep"
      "kr_keyword_analysis rep K = Some e" "placement_analysis rep K = Some p"
      "in_title e = contains (lower K) (take 100 (lower C))"
      "in_first_paragraph e = contains (lower K) (take 500 (lower C))"
      "score p = of_bool (in_title e) + of_bool (in_headings e) + of_bool (in_first_paragraph e)"
    using report_keywords_loop_entry [where C = C and ks = "keywords" and K = K] assms
    unfolding generate_keyword_report_def by blast
  have "score p \<in> {0, 1, 2, 3}"
    unfolding r(6) by (cases "in_title e"; cases "in_headings e"; cases "in_first_paragraph e") simp_all
  then show ?thesis
    using r by (auto simp: contains_iff_sublist)
qed

theorem keyword_report_placement_witness:
  "\<exists>rep e p. generate_keyword_report seo_sample [''remote work'', ''Productivity''] = Inr rep
      \<and> kr_keyword_analysis rep ''Productivity'' = Some e
      \<and> placement_analysis rep ''Productivity'' = Some p
      \<and> in_title e \<and> in_first_paragraph e \<and> \<not> in_headings e \<and> score p = 2"
proof -
  have k: "''Productivity'' \<in> set [''remote work'', ''Productivity'']" by simp
  have t: "sublist (lower ''Productivity'') (take 100 (lower seo_sample))" 
    unfolding contains_iff_sublist [symmetric] by code_simp
  have f: "sublist (lower ''Productivity'') (take 500 (lower seo_sample))"
    unfolding contains_iff_sublist [symmetric] by code_simp
  have h: "(case generate_keyword_report seo_sample [''remote work'', ''Productivity''] of
              Inl x \<Rightarrow> None
            | Inr rep \<Rightarrow> map_option in_headings (kr_keyword_analysis rep ''Productivity'')) = Some False"
    by code_simp
  from keyword_report_placement [OF k, of seo_sample] obtain rep e p where
    r: "generate_keyword_report seo_sample [''remote work'', ''Productivity''] = Inr rep"
      "kr_keyword_analysis rep ''Productivity'' = Some e"
      "placement_analysis rep ''Productivity'' = Some p"
      "in_title e \<longleftrightarrow> sublist (lower ''Productivity'') (take 100 (lower seo_sample))"
      "in_first_paragraph e \<longleftrightarrow> sublist (lower ''Productivity'') (take 500 (lower seo_sample))"
      "score p = of_bool (in_title e) + of_bool (in_headings e) + of_bool (in_first_paragraph e)"
    by blast
  have "\<not> in_headings e" using h r(1,2) by simp
  then show ?thesis
    using r t f by (intro exI [of _ rep] exI [of _ e] exI [of _ p]) simp
qed

subsection \<open>Source credibility\<close>

lemma single_credibility_range:
  "1 / 2 \<le> assess_single_source_credibility s \<and> assess_single_source_credibility s \<le> 1"
  by (simp add: assess_single_source_credibility_def Let_def)

lemma sum_list_lower_bound:
  fixes xs :: "rat list"
  assumes "\<forall>x \<in> set xs. b \<le> x"
  shows "b * of_nat (length xs) \<le> sum_list xs"
  using assms by (induction xs) (simp_all add: algebra_simps)

lemma round2_lower_bound:
  assumes "1 / 2 \<le> x"
  shows "1 / 2 \<le> round2 x"
proof -
  have "(50 :: rat) \<le> x * 100" using assms by simp
  then have "(50 :: int) \<le> \<lfloor>x * 100\<rfloor>" by linarith 
  then show ?thesis
    by (simp add: round2_def Let_def)
qed

text \<open>
  Claim C10.  The credibility score of a single source lies between 0.5 and 1.0; hence,
  when at least one result is not error-tagged, the assessment is computed and its
  \<open>overall_score\<close> (the mean of the scores, rounded to two decimals) is at least 0.5.
\<close>

theorem credibility_lower_bound:
  "(1 / 2 \<le> assess_single_source_credibility s \<and> assess_single_source_credibility s \<le> 1)
   \<and> (valid_results rs \<noteq> [] \<longrightarrow>
        (\<exists>a. assess_source_credibility rs = Inr a \<and> 1 / 2 \<le> ca_overall_score a
              \<and> total_sources a = Some (length (valid_results rs))))"
proof (intro conjI impI)
  assume ne: "valid_results rs \<noteq> []"
  let ?scores = "map assess_single_source_credibility (valid_results rs)"
  have len: "0 < length ?scores" using ne by simp
  have "\<forall>x \<in> set ?scores. 1 / 2 \<le> x"
    using single_credibility_range by auto
  then have "1 / 2 * of_nat (length ?scores) \<le> sum_list ?scores"
    by (rule sum_list_lower_bound)
  then have avg: "1 / 2 \<le> sum_list ?scores / of_nat (length ?scores)"
    using len by (simp add: pos_le_divide_eq)
  show "\<exists>a. assess_source_credibility rs = Inr a \<and> 1 / 2 \<le> ca_overall_score a
              \<and> total_sources a = Some (length (valid_results rs))"
    using ne round2_lower_bound [OF avg]
    by (simp add: assess_source_credibility_def Let_def truediv_def)
qed (use single_credibility_range [of s] in blast)+

theorem credibility_lower_bound_witness:
  "valid_results [error_source, sample_source] \<noteq> []
   \<and> assess_single_source_credibility sample_source = 7 / 10
   \<and> (\<exists>a. assess_source_credibility [error_source, sample_source] = Inr a
           \<and> 1 / 2 \<le> ca_overall_score a \<and> total_sources a = Some 1)"
proof -
  have v: "valid_results [error_source, sample_source] = [sample_source]" by code_simp
  have s: "assess_single_source_credibility sample_source = 7 / 10" by code_simp
  show ?thesis
    using credibility_lower_bound [of sample_source "[error_source, sample_source]"] v s by simp
qed

subsection \<open>Research with no valid source\<close>

lemma derived_lists_ignore_errors:
  "create_research_summary tp rs = create_research_summary tp (valid_results rs)"
  "extract_key_facts rs = extract_key_facts (valid_results rs)"
  "extract_statistics findall rs = extract_statistics findall (valid_results rs)"
  "extract_quotes rs = extract_quotes (valid_results rs)"
  "compile_sources rs = compile_sources (valid_results rs)"
  "assess_source_credibility rs = assess_source_credibility (valid_results rs)"
  by (simp_all add: create_research_summary_def extract_key_facts_def extract_statistics_def
      extract_quotes_def compile_sources_def assess_source_credibility_def valid_results_def)

text \<open>
  Claim C6.  If every record the search tool returns carries the \<open>error\<close> key, the research
  stage still returns a result: the summary starts with \<open>Limited research available\<close>, the
  lists of key facts, statistics, expert quotes and source references are empty, and the
  credibility assessment has \<open>overall_score\<close> 0.
\<close>

theorem research_without_valid_sources:
  assumes "\<forall>query n. \<forall>r \<in> set (web_search query n). has_key r ''error''"
  shows "\<exists>out. conduct_research web_search findall tp reqs = Inr out
           \<and> prefix ''Limited research available'' (research_summary out)
           \<and> key_facts out = [] \<and> statistics out = [] \<and> expert_quotes out = []
           \<and> source_references out = []
           \<and> ca_overall_score (ro_credibility_assessment out) = 0"
proof -
  let ?results = "concat (map (\<lambda>query. web_search query 5) (generate_research_queries tp reqs))"
  have "\<forall>r \<in> set ?results. has_key r ''error''"
    using assms by auto
  then have v: "valid_results ?results = []"
    by (simp add: valid_results_def filter_empty_conv)
  show ?thesis
    by (simp add: conduct_research_def Let_def v assess_source_credibility_def
        create_research_summary_def extract_key_facts_def extract_statistics_def
        extract_quotes_def compile_sources_def)
qed

theorem research_without_valid_sources_witness:
  "\<exists>out. conduct_research failing_search no_matches ''Remote Work'' no_keyword_requirements = Inr out
       \<and> research_summary out =
           ''Limited research available on Remote Work. Recommend using authoritative sources.''
       \<and> key_facts out = [] \<and> statistics out = [] \<and> expert_quotes out = []
       \<and> source_references out = []
       \<and> ca_overall_score (ro_credibility_assessment out) = 0"
proof -
  have h: "\<forall>query n. \<forall>r \<in> set (failing_search query n). has_key r ''error''"
    by (simp add: failing_search_def has_key_def)
  have s: "(case conduct_research failing_search no_matches ''Remote Work'' no_keyword_requirements of
      Inl e \<Rightarrow> [] | Inr out \<Rightarrow> research_summary out) =
      ''Limited research available on Remote Work. Recommend using authoritative sources.''"
    by code_simp
  from research_without_valid_sources [OF h, of no_matches "''Remote Work''" no_keyword_requirements]
  obtain out where o: "conduct_research failing_search no_matches ''Remote Work'' no_keyword_requirements = Inr out"
     "key_facts out = []" "statistics out = []" "expert_quotes out = []"
     "source_references out = []" "ca_overall_score (ro_credibility_assessment out) = 0"
    by blast
  show ?thesis
    using o s by simp
qed

subsection \<open>Content plan\<close>

text \<open>
  Claim C8.  \<open>create_content_plan\<close> returns a plan for every requirements mapping, and its
  quality criteria have \<open>minimum_word_count = 0.9 \<times> W\<close> and \<open>maximum_word_count = 1.1 \<times> W\<close>,
  where \<open>W\<close> is the requested word count, or 1000 when the mapping has none.
\<close>

theorem plan_word_count_bounds:
  "\<exists>c. pl_quality_criteria (create_content_plan reqs) = Some c
     \<and> minimum_word_count c = Some (9 / 10 * of_int (get_or (word_count reqs) 1000))
     \<and> maximum_word_count c = Some (11 / 10 * of_int (get_or (word_count reqs) 1000))
     \<and> (word_count reqs = None \<longrightarrow>
          minimum_word_count c = Some 900 \<and> maximum_word_count c = Some 1100)"
  by (simp add: create_content_plan_def define_quality_criteria_def get_or_def)

theorem plan_word_count_bounds_witness:
  "\<exists>c. pl_quality_criteria (create_content_plan no_keyword_requirements) = Some c
     \<and> minimum_word_count c = Some 900 \<and> maximum_word_count c = Some 1100"
proof -
  have "word_count no_keyword_requirements = None"
    by (simp add: no_keyword_requirements_def)
  then show ?thesis
    using plan_word_count_bounds [of no_keyword_requirements] by auto
qed

subsection \<open>Coordinator validation\<close>

lemma validation_score_formula:
  "\<exists>v. validate_content_quality C P = Inr v
     \<and> overall_score v =
         100 * of_nat (length (filter check_get_passed (checks v))) / of_nat (length (checks v))
     \<and> passed v = (80 \<le> overall_score v)
     \<and> structure_of v = Some (content_structure C)"
  by (simp add: validate_content_quality_def Let_def truediv_def structure_of_def check_get_passed_def)

lemma validation_score_word_count_only:
  "\<exists>v w s. validate_content_quality C P = Inr v \<and> checks v = [Word_count w, Structure s]
     \<and> overall_score v = (if wc_passed w then 100 else 50)"
  by (simp add: validate_content_quality_def Let_def truediv_def check_get_passed_def)

text \<open>
  Claim C1 at a ten-word text that has no conclusion marker in its last 200 characters and
  meets the plan's word-count range of 9 to 11: \<open>has_conclusion\<close> is \<open>False\<close>, yet the
  structure entry counts as a passed check and \<open>overall_score\<close> is 100.
\<close>

theorem missing_conclusion_not_scored:
  "validate_content_quality no_conclusion_content (create_content_plan ten_word_requirements) =
     Inr \<lparr> overall_score = 100, passed = True,
           checks = [Word_count \<lparr> current = 10, target_range = (9, 11), wc_passed = True \<rparr>,
                     Structure \<lparr> has_introduction = False, has_conclusion = False,
                                 has_headings = False \<rparr>],
           feedback = [Text ''Content meets quality standards and is ready for publication.''],
           improvements_needed = [] \<rparr>"
  by code_simp

subsection \<open>Meta tags\<close>

lemma meta_lengths_without_keywords:
  "length (meta_title C [] reqs) \<le> 60 \<and> length (meta_description C []) \<le> 160"
  by (simp add: meta_title_def meta_description_def Let_def)

lemma keyword_report_returns: "\<exists>rep. generate_keyword_report C ks = Inr rep"
  using report_keywords_loop_entry [where C = C and ks = ks]
  unfolding generate_keyword_report_def by blast

lemma long_keywords:
  "get_or (seo_keywords long_keyword_requirements) [] =
     [''remote work productivity tips'']"
  by (simp add: long_keyword_requirements_def get_or_def)

lemma short_title_steps:
  "optimize_title_seo short_title_content [''remote work productivity tips''] =
     Inr short_title_content"
  "optimize_headings_seo short_title_content [''remote work productivity tips''] =
     short_title_content"
  "integrate_keywords_naturally short_title_content
     [''remote work productivity tips''] = short_title_content"
  "optimize_content_structure short_title_content = short_title_content"
  by code_simp+

lemma short_title_meta:
  "meta_title
     (add_seo_elements short_title_content [''remote work productivity tips'']
        long_keyword_requirements)
     [''remote work productivity tips''] long_keyword_requirements =
   ''remote work productivity tips - Remote Work Productivity Tips''"
  "length (meta_description
     (add_seo_elements short_title_content [''remote work productivity tips'']
        long_keyword_requirements)
     [''remote work productivity tips'']) = 162"
  by code_simp+

text \<open>
  Claim C3 at a document whose title has 29 characters and whose first paragraph has 110,
  with the one keyword \<open>remote work productivity tips\<close>: the keyword is prefixed to the
  title, which then has 61 characters, and the keyword sentence is appended to the
  description, which then has 162.
\<close>

theorem meta_tags_exceed_limits:
  "\<exists>out. optimize_content short_title_content long_keyword_requirements = Inr out
     \<and> mt_title (so_meta_tags out) =
         ''remote work productivity tips - Remote Work Productivity Tips''
     \<and> length (mt_title (so_meta_tags out)) = 61
     \<and> length (mt_description (so_meta_tags out)) = 162"
proof -
  let ?kws = "[''remote work productivity tips'']"
  let ?X = "add_seo_elements short_title_content ?kws long_keyword_requirements"
  have seo: "optimize_content_seo short_title_content ?kws long_keyword_requirements = Inr ?X"
    by (simp add: optimize_content_seo_def short_title_steps Let_def)
  obtain rep where rep: "generate_keyword_report ?X ?kws = Inr rep"
    using keyword_report_returns by blast
  show ?thesis
    by (simp add: optimize_content_def long_keywords seo rep Let_def generate_meta_tags_def
        short_title_meta)
qed

subsection \<open>Fixed points of the editing steps\<close>


























subsection \<open>Editing twice\<close>





text \<open>
  The first pass need not reach the normal form: here it leaves a space before the comma,
  and the second pass removes it and reports one word less.
\<close>

lemma punctuation_needs_two_passes:
  "edited_content (edit_content ''A  ,b'' no_keyword_requirements) = ''A ,b''"
  "improvements_made (edit_content ''A ,b'' no_keyword_requirements) =
     [''Reduced word count by 1 words for better conciseness'']"
  by code_simp+




end
